theory Spec2Isabelle
  imports Main "HOL-Library.Word"
begin

section \<open>ImageBackingStore: one storage abstraction over raw sectors, files and the ROM drive\<close>

text \<open>
  A shallow embedding of \<^verbatim>\<open>src/ImageBackingStore.cpp\<close>. The object's fields are a
  record, every request is a function from the old state to its result and the new state.
  The collaborators (the SdFat file and card, the ROM drive, minIni, the C library's
  platform constants) are not part of the file: they are taken as a record of functions
  \<open>collab\<close>, so every theorem holds for any behaviour of theirs. The log calls
  (\<^verbatim>\<open>logmsg\<close>, \<^verbatim>\<open>dbgmsg\<close>) have no effect on the object and are left out.
\<close>

subsection \<open>Machine types and constants\<close>

type_synonym uint8_t = "8 word"
type_synonym uint32_t = "32 word"
type_synonym uint64_t = "64 word"

text \<open>
  \<^verbatim>\<open>SD_SECTOR_SIZE\<close> comes from a header; the message of the constructor
  ("must be divisible by 512 bytes") gives its value. It is an \<^verbatim>\<open>int\<close> constant, so
  it takes the type of the other operand of each expression; \<open>SD_SECTOR_SIZE\<close> below is
  polymorphic in the word length for that reason.
\<close>

definition SD_SECTOR_SIZE :: "'a::len word" where
  "SD_SECTOR_SIZE = 512"

definition FS_ATTRIB_READ_ONLY :: uint8_t where
  "FS_ATTRIB_READ_ONLY = 1"

definition NUL :: char where
  "NUL = CHR 0x00"

subsection \<open>The C library functions of the constructor\<close>

text \<open>
  A \<^verbatim>\<open>char *\<close> into the file name is the list of the characters from the pointer to
  the terminator; the terminator itself is what \<open>deref\<close> reads at the empty list.
\<close>

definition deref :: "string \<Rightarrow> char" where
  "deref p = (case p of [] \<Rightarrow> NUL | c # _ \<Rightarrow> c)"

definition tolower :: "char \<Rightarrow> char" where
  "tolower c =
     (case map_of (zip ''ABCDEFGHIJKLMNOPQRSTUVWXYZ'' ''abcdefghijklmnopqrstuvwxyz'') c of
        None \<Rightarrow> c
      | Some l \<Rightarrow> l)"

fun strncasecmp :: "string \<Rightarrow> string \<Rightarrow> nat \<Rightarrow> int" where
  "strncasecmp s1 s2 0 = 0"
| "strncasecmp s1 s2 (Suc n) =
     (let c1 = tolower (deref s1); c2 = tolower (deref s2)
      in if c1 \<noteq> c2 then int (of_char c1) - int (of_char c2)
         else if c1 = NUL then 0
         else strncasecmp (tl s1) (tl s2) n)"

definition isspace :: "char \<Rightarrow> bool" where
  "isspace c \<longleftrightarrow> c \<in> set [CHR '' '', CHR 0x09, CHR 0x0A, CHR 0x0B, CHR 0x0C, CHR 0x0D]"

text \<open>The value of a digit or letter in \<^verbatim>\<open>strtoul\<close>; \<open>None\<close> for any other character.\<close>

definition digit_val :: "char \<Rightarrow> nat option" where
  "digit_val c =
     (let n = (of_char c :: nat)
      in if 48 \<le> n \<and> n \<le> 57 then Some (n - 48)
         else if 97 \<le> n \<and> n \<le> 122 then Some (n - 87)
         else if 65 \<le> n \<and> n \<le> 90 then Some (n - 55)
         else None)"

definition is_digit_in :: "nat \<Rightarrow> char \<Rightarrow> bool" where
  "is_digit_in base c = (case digit_val c of None \<Rightarrow> False | Some d \<Rightarrow> d < base)"

text \<open>
  The digit loop: the value read so far, whether a digit was consumed, and the first
  character that is not a digit of the base.
\<close>

fun strtoul_digits :: "nat \<Rightarrow> nat \<Rightarrow> bool \<Rightarrow> string \<Rightarrow> nat \<times> bool \<times> string" where
  "strtoul_digits base acc any [] = (acc, any, [])"
| "strtoul_digits base acc any (c # cs) =
     (case digit_val c of
        None \<Rightarrow> (acc, any, c # cs)
      | Some d \<Rightarrow> if d < base then strtoul_digits base (acc * base + d) True cs
                  else (acc, any, c # cs))"

text \<open>
  \<^verbatim>\<open>strtoul(nptr, &endptr, 0)\<close> of ISO C, in the C locale: white space, an optional
  sign, the base from the prefix (\<^verbatim>\<open>0x\<close> followed by a hexadecimal digit, \<^verbatim>\<open>0\<close>, or
  decimal), the digits. It returns the value and \<^verbatim>\<open>endptr\<close>. Without any digit the
  value is 0 and \<^verbatim>\<open>endptr\<close> is \<^verbatim>\<open>nptr\<close>; a value beyond \<^verbatim>\<open>ULONG_MAX\<close> gives
  \<^verbatim>\<open>ULONG_MAX\<close>; a minus sign negates in \<^verbatim>\<open>unsigned long\<close>. The first argument is
  \<^verbatim>\<open>ULONG_MAX\<close>, which depends on the platform.
\<close>

definition strtoul :: "nat \<Rightarrow> string \<Rightarrow> nat \<times> string" where
  "strtoul ulong_max nptr =
     (let s1 = dropWhile isspace nptr;
          neg = (deref s1 = CHR ''-'');
          s2 = (if deref s1 = CHR ''-'' \<or> deref s1 = CHR ''+'' then tl s1 else s1);
          hex = (deref s2 = CHR ''0''
                 \<and> (deref (tl s2) = CHR ''x'' \<or> deref (tl s2) = CHR ''X'')
                 \<and> is_digit_in 16 (deref (tl (tl s2))));
          base = (if hex then 16 else if deref s2 = CHR ''0'' then 8 else 10);
          s3 = (if hex then tl (tl s2) else s2);
          (acc, any, rest) = strtoul_digits base 0 False s3
      in if \<not> any then (0, nptr)
         else if acc > ulong_max then (ulong_max, rest)
         else if neg then ((ulong_max + 1 - acc) mod (ulong_max + 1), rest)
         else (acc, rest))"

text \<open>
  A decimal number as a descriptor spells it: at least one decimal digit, the first not
  \<^verbatim>\<open>0\<close> (which would select octal or hexadecimal).
\<close>

definition decimal_number :: "string \<Rightarrow> bool" where
  "decimal_number ds \<longleftrightarrow> ds \<noteq> [] \<and> hd ds \<noteq> CHR ''0'' \<and> list_all (is_digit_in 10) ds"

subsection \<open>The collaborators\<close>

datatype oflag = O_RDONLY | O_RDWR

text \<open>
  \<open>'fs\<close> is the state of an SdFat file handle, \<open>'card\<close> the state of the SD card.
  Each call returns its result and the state after it. \<open>romDriveCheckPresent\<close> is
  \<open>Some n\<close> when the ROM drive is present, \<open>n\<close> the image size it writes into the
  header. \<open>past_terminator\<close> is the memory that follows the terminator of the file
  name (the constructor reads it for a name such as \<^verbatim>\<open>RAW:10\<close>).
\<close>

record ('fs, 'card) collab =
  SD_attrib :: "string \<Rightarrow> uint8_t"
  SD_open :: "string \<Rightarrow> oflag \<Rightarrow> 'fs"
  sectorCount :: uint32_t
  readSectors :: "'card \<Rightarrow> uint32_t \<Rightarrow> uint32_t \<Rightarrow> bool \<times> uint8_t list \<times> 'card"
  writeSectors :: "'card \<Rightarrow> uint32_t \<Rightarrow> uint8_t list \<Rightarrow> uint32_t \<Rightarrow> bool \<times> 'card"
  FsFile_closed :: "'fs"
  fs_isOpen :: "'fs \<Rightarrow> bool"
  fs_size :: "'fs \<Rightarrow> uint64_t"
  fs_contiguousRange :: "'fs \<Rightarrow> (uint32_t \<times> uint32_t) option"
  fs_seek :: "'fs \<Rightarrow> uint64_t \<Rightarrow> bool \<times> 'fs"
  fs_read :: "'fs \<Rightarrow> nat \<Rightarrow> int \<times> uint8_t list \<times> 'fs"
  fs_write :: "'fs \<Rightarrow> uint8_t list \<Rightarrow> nat \<Rightarrow> int \<times> 'fs"
  fs_flush :: "'fs \<Rightarrow> 'fs"
  fs_close :: "'fs \<Rightarrow> bool \<times> 'fs"
  fs_curPosition :: "'fs \<Rightarrow> uint64_t"
  romDriveCheckPresent :: "uint32_t option"
  romDriveRead :: "uint32_t \<Rightarrow> nat \<Rightarrow> bool \<times> uint8_t list"
  ini_getbool_UseFATAllocSize :: bool
  ULONG_MAX :: nat
  past_terminator :: string

subsection \<open>The object\<close>

text \<open>\<^verbatim>\<open>m_blockdev\<close> is either null or the card that \<^verbatim>\<open>SD.card()\<close> returns.\<close>

datatype blockdev_ptr = nullptr | SD_card

record 'fs ImageBackingStore =
  m_israw :: bool
  m_isrom :: bool
  m_isreadonly_attr :: bool
  m_blockdev :: blockdev_ptr
  m_bgnsector :: uint32_t
  m_endsector :: uint32_t
  m_cursector :: uint32_t
  m_romhdr_imagesize :: uint32_t
  m_fsfile :: 'fs

text \<open>
  The default constructor. It does not assign \<^verbatim>\<open>m_romhdr\<close>: \<open>hdr\<close> is whatever the
  header's image size holds before. \<^verbatim>\<open>m_fsfile\<close> is a default-constructed handle.
\<close>

definition ImageBackingStore_default ::
  "('fs, 'card) collab \<Rightarrow> uint32_t \<Rightarrow> 'fs ImageBackingStore" where
  "ImageBackingStore_default env hdr =
     \<lparr> m_israw = False, m_isrom = False, m_isreadonly_attr = False,
       m_blockdev = nullptr, m_bgnsector = 0, m_endsector = 0, m_cursector = 0,
       m_romhdr_imagesize = hdr, m_fsfile = FsFile_closed env \<rparr>"

text \<open>\<^verbatim>\<open>endptr + 1\<close>: one past the terminator is the memory behind the string.\<close>

definition ptr_succ :: "('fs, 'card) collab \<Rightarrow> string \<Rightarrow> string" where
  "ptr_succ env p = (case p of [] \<Rightarrow> past_terminator env | _ # cs \<Rightarrow> cs)"

definition ctor_raw ::
  "('fs, 'card) collab \<Rightarrow> string \<Rightarrow> uint32_t \<Rightarrow> 'fs ImageBackingStore \<Rightarrow> 'fs ImageBackingStore" where
  "ctor_raw env filename scsi_block_size s0 =
     (let (b, endptr) = strtoul (ULONG_MAX env) (drop 4 filename);
          s1 = s0\<lparr>m_bgnsector := of_nat b\<rparr>;
          (e, endptr2) = strtoul (ULONG_MAX env) (ptr_succ env endptr);
          s2 = s1\<lparr>m_endsector := of_nat e\<rparr>
      in if deref endptr \<noteq> CHR '':'' \<or> deref endptr2 \<noteq> NUL then s2
         else if scsi_block_size mod SD_SECTOR_SIZE \<noteq> 0 then s2
         else
           (let s3 = s2\<lparr>m_israw := True, m_blockdev := SD_card\<rparr>
            in if m_endsector s3 \<ge> sectorCount env
               then s3\<lparr>m_endsector := sectorCount env - 1\<rparr>
               else s3))"

definition ctor_rom ::
  "('fs, 'card) collab \<Rightarrow> 'fs ImageBackingStore \<Rightarrow> 'fs ImageBackingStore" where
  "ctor_rom env s0 =
     (case romDriveCheckPresent env of
        None \<Rightarrow> s0\<lparr>m_romhdr_imagesize := 0\<rparr>
      | Some n \<Rightarrow> s0\<lparr>m_romhdr_imagesize := n, m_isrom := True\<rparr>)"

definition ctor_file ::
  "('fs, 'card) collab \<Rightarrow> string \<Rightarrow> uint32_t \<Rightarrow> 'fs ImageBackingStore \<Rightarrow> 'fs ImageBackingStore" where
  "ctor_file env filename scsi_block_size s0 =
     (let ro = (and FS_ATTRIB_READ_ONLY (SD_attrib env filename) \<noteq> 0);
          s1 = s0\<lparr>m_isreadonly_attr := ro,
                  m_fsfile := SD_open env filename (if ro then O_RDONLY else O_RDWR)\<rparr>;
          sectorcount = (ucast (fs_size env (m_fsfile s1) div SD_SECTOR_SIZE) :: uint32_t)
      in case fs_contiguousRange env (m_fsfile s1) of
           None \<Rightarrow> s1
         | Some (begin, end) \<Rightarrow>
             if end \<ge> begin + sectorcount \<and> scsi_block_size mod SD_SECTOR_SIZE = 0
             then
               (let sectorcount' =
                      (if end \<noteq> begin + sectorcount \<and> ini_getbool_UseFATAllocSize env
                       then end - begin + 1 else sectorcount)
                in s1\<lparr>m_israw := True, m_blockdev := SD_card, m_bgnsector := begin,
                       m_endsector := begin + sectorcount' - 1,
                       m_fsfile := fs_flush env (m_fsfile s1)\<rparr>)
             else s1)"

text \<open>The constructor from a file name and the SCSI block size.\<close>

definition ImageBackingStore_open ::
  "('fs, 'card) collab \<Rightarrow> uint32_t \<Rightarrow> string \<Rightarrow> uint32_t \<Rightarrow> 'fs ImageBackingStore" where
  "ImageBackingStore_open env hdr filename scsi_block_size =
     (let s0 = ImageBackingStore_default env hdr
      in if strncasecmp filename ''RAW:'' 4 = 0 then ctor_raw env filename scsi_block_size s0
         else if strncasecmp filename ''ROM:'' 4 = 0 then ctor_rom env s0
         else ctor_file env filename scsi_block_size s0)"

subsection \<open>The accessors\<close>

definition isOpen :: "('fs, 'card) collab \<Rightarrow> 'fs ImageBackingStore \<Rightarrow> bool" where
  "isOpen env s =
     (if m_israw s then m_blockdev s \<noteq> nullptr
      else if m_isrom s then m_romhdr_imagesize s > 0
      else fs_isOpen env (m_fsfile s))"

definition isWritable :: "'fs ImageBackingStore \<Rightarrow> bool" where
  "isWritable s \<longleftrightarrow> \<not> m_isrom s \<and> \<not> m_isreadonly_attr s"

definition isRom :: "'fs ImageBackingStore \<Rightarrow> bool" where
  "isRom s = m_isrom s"

definition close ::
  "('fs, 'card) collab \<Rightarrow> 'fs ImageBackingStore \<Rightarrow> bool \<times> 'fs ImageBackingStore" where
  "close env s =
     (if m_israw s then (True, s\<lparr>m_blockdev := nullptr\<rparr>)
      else if m_isrom s then (True, s\<lparr>m_romhdr_imagesize := 0\<rparr>)
      else (let (r, f) = fs_close env (m_fsfile s) in (r, s\<lparr>m_fsfile := f\<rparr>)))"

definition size_bytes :: "('fs, 'card) collab \<Rightarrow> 'fs ImageBackingStore \<Rightarrow> uint64_t" where
  "size_bytes env s =
     (if m_israw s \<and> m_blockdev s \<noteq> nullptr
      then ucast (m_endsector s - m_bgnsector s + 1) * SD_SECTOR_SIZE
      else if m_isrom s then ucast (m_romhdr_imagesize s)
      else fs_size env (m_fsfile s))"

definition contiguousRange ::
  "('fs, 'card) collab \<Rightarrow> 'fs ImageBackingStore \<Rightarrow> (uint32_t \<times> uint32_t) option" where
  "contiguousRange env s =
     (if m_israw s \<and> m_blockdev s \<noteq> nullptr then Some (m_bgnsector s, m_endsector s)
      else if m_isrom s then Some (0, 0)
      else fs_contiguousRange env (m_fsfile s))"

definition flush :: "('fs, 'card) collab \<Rightarrow> 'fs ImageBackingStore \<Rightarrow> 'fs ImageBackingStore" where
  "flush env s =
     (if \<not> m_israw s \<and> \<not> m_isrom s \<and> \<not> m_isreadonly_attr s
      then s\<lparr>m_fsfile := fs_flush env (m_fsfile s)\<rparr>
      else s)"

definition position :: "('fs, 'card) collab \<Rightarrow> 'fs ImageBackingStore \<Rightarrow> uint64_t" where
  "position env s =
     (if \<not> m_israw s \<and> \<not> m_isrom s then fs_curPosition env (m_fsfile s) else 0)"

subsection \<open>Seek, read and write\<close>

text \<open>
  The two \<^verbatim>\<open>assert\<close> calls of the ROM branches abort the program; the model returns
  \<open>Inl AssertionFailed\<close> there. \<^verbatim>\<open>size_t\<close> is a word of any length \<open>'s\<close>, a
  returned \<^verbatim>\<open>ssize_t\<close> is an \<open>int\<close>: \<^verbatim>\<open>return count\<close> reads the count as a signed
  value of the same width. The buffer of \<open>read\<close> is the byte list it returns, the
  buffer of \<^verbatim>\<open>write\<close> (here \<open>write_buf\<close>) the byte list \<open>buf\<close>. The card is not a field of the object:
  \<open>read\<close> and \<open>write_buf\<close> take its state and return the state after the call.
\<close>

datatype fault = AssertionFailed

definition seek ::
  "('fs, 'card) collab \<Rightarrow> 'fs ImageBackingStore \<Rightarrow> uint64_t
     \<Rightarrow> fault + bool \<times> 'fs ImageBackingStore" where
  "seek env s0 pos =
     (let sectornum = (ucast (pos div SD_SECTOR_SIZE) :: uint32_t);
          s = (if m_israw s0 \<and> (ucast sectornum :: uint64_t) * SD_SECTOR_SIZE \<noteq> pos
               then s0\<lparr>m_israw := False\<rparr> else s0)
      in if m_israw s then
           (let s' = s\<lparr>m_cursector := m_bgnsector s + sectornum\<rparr>
            in Inr (m_cursector s' \<le> m_endsector s', s'))
         else if m_isrom s then
           (if (ucast sectornum :: uint64_t) * SD_SECTOR_SIZE = pos
            then (let s' = s\<lparr>m_cursector := sectornum\<rparr>
                  in Inr (m_cursector s' * SD_SECTOR_SIZE < m_romhdr_imagesize s', s'))
            else Inl AssertionFailed)
         else (let (r, f) = fs_seek env (m_fsfile s) pos in Inr (r, s\<lparr>m_fsfile := f\<rparr>)))"

definition read ::
  "('fs, 'card) collab \<Rightarrow> 'fs ImageBackingStore \<Rightarrow> 'card \<Rightarrow> 's::len word
     \<Rightarrow> fault + int \<times> uint8_t list \<times> 'fs ImageBackingStore \<times> 'card" where
  "read env s0 dev count =
     (let sectorcount = (ucast (count div SD_SECTOR_SIZE) :: uint32_t);
          s = (if m_israw s0 \<and> (ucast sectorcount :: uint64_t) * SD_SECTOR_SIZE \<noteq> ucast count
               then s0\<lparr>m_israw := False\<rparr> else s0)
      in if m_israw s \<and> m_blockdev s \<noteq> nullptr then
           (let (ok, buf, dev') = readSectors env dev (m_cursector s) sectorcount
            in if ok then Inr (sint count, buf, s\<lparr>m_cursector := m_cursector s + sectorcount\<rparr>, dev')
               else Inr (- 1, buf, s, dev'))
         else if m_isrom s then
           (if (ucast sectorcount :: uint64_t) * SD_SECTOR_SIZE = ucast count
            then (let start = m_cursector s * SD_SECTOR_SIZE;
                      (ok, buf) = romDriveRead env start (unat count)
                  in if ok then Inr (sint count, buf, s\<lparr>m_cursector := m_cursector s + sectorcount\<rparr>, dev)
                     else Inr (- 1, buf, s, dev))
            else Inl AssertionFailed)
         else (let (r, buf, f) = fs_read env (m_fsfile s) (unat count)
               in Inr (r, buf, s\<lparr>m_fsfile := f\<rparr>, dev)))"

definition write_buf ::
  "('fs, 'card) collab \<Rightarrow> 'fs ImageBackingStore \<Rightarrow> 'card \<Rightarrow> uint8_t list \<Rightarrow> 's::len word
     \<Rightarrow> int \<times> 'fs ImageBackingStore \<times> 'card" where
  "write_buf env s0 dev buf count =
     (let sectorcount = (ucast (count div SD_SECTOR_SIZE) :: uint32_t);
          s = (if m_israw s0 \<and> (ucast sectorcount :: uint64_t) * SD_SECTOR_SIZE \<noteq> ucast count
               then s0\<lparr>m_israw := False\<rparr> else s0)
      in if m_israw s \<and> m_blockdev s \<noteq> nullptr then
           (let (ok, dev') = writeSectors env dev (m_cursector s) buf sectorcount
            in if ok then (sint count, s\<lparr>m_cursector := m_cursector s + sectorcount\<rparr>, dev')
               else (0, s, dev'))
         else if m_isrom s then (0, s, dev)
         else if m_isreadonly_attr s then (0, s, dev)
         else (let (r, f) = fs_write env (m_fsfile s) buf (unat count)
               in (r, s\<lparr>m_fsfile := f\<rparr>, dev)))"

text \<open>The mode that the dispatch of every request sees: the raw flag is tested first.\<close>

datatype mode = Raw | Rom | File

definition mode_of :: "'fs ImageBackingStore \<Rightarrow> mode" where
  "mode_of s = (if m_israw s then Raw else if m_isrom s then Rom else File)"

subsection \<open>Sequences of calls\<close>

text \<open>
  A client is a list of method calls on one instance (\<open>'c\<close> is the type of the counts,
  a \<^verbatim>\<open>size_t\<close> word). \<open>call\<close> runs one of them on the
  object and the card, \<open>calls\<close> runs a list and stops at a failed assertion.
\<close>

datatype 'c request =
    IsOpen | IsWritable | IsRom | Close | Size | ContiguousRange | Flush | Position
  | Seek uint64_t | Read 'c | Write "uint8_t list" 'c

definition call ::
  "('fs, 'card) collab \<Rightarrow> ('s::len word) request \<Rightarrow> 'fs ImageBackingStore \<times> 'card
     \<Rightarrow> fault + 'fs ImageBackingStore \<times> 'card" where
  "call env m sc =
     (let (s, dev) = sc
      in case m of
           Close \<Rightarrow> Inr (snd (close env s), dev)
         | Flush \<Rightarrow> Inr (flush env s, dev)
         | Seek pos \<Rightarrow> (case seek env s pos of Inl e \<Rightarrow> Inl e | Inr (r, s') \<Rightarrow> Inr (s', dev))
         | Read count \<Rightarrow>
             (case read env s dev count of
                Inl e \<Rightarrow> Inl e | Inr (r, buf, s', dev') \<Rightarrow> Inr (s', dev'))
         | Write buf count \<Rightarrow> (let (r, s', dev') = write_buf env s dev buf count in Inr (s', dev'))
         | _ \<Rightarrow> Inr (s, dev))"

fun calls ::
  "('fs, 'card) collab \<Rightarrow> ('s::len word) request list \<Rightarrow> 'fs ImageBackingStore \<times> 'card
     \<Rightarrow> fault + 'fs ImageBackingStore \<times> 'card" where
  "calls env [] sc = Inr sc"
| "calls env (m # ms) sc = (case call env m sc of Inl e \<Rightarrow> Inl e | Inr sc' \<Rightarrow> calls env ms sc')"

text \<open>A call whose byte position or count is not a multiple of the sector size.\<close>

definition unaligned :: "('s::len word) request \<Rightarrow> bool" where
  "unaligned m =
     (case m of
        Seek pos \<Rightarrow> unat pos mod 512 \<noteq> 0
      | Read count \<Rightarrow> unat count mod 512 \<noteq> 0
      | Write buf count \<Rightarrow> unat count mod 512 \<noteq> 0
      | _ \<Rightarrow> False)"

subsection \<open>An instance of the collaborators\<close>

text \<open>
  A small in-memory stand-in for the collaborators, on which the model runs on concrete
  inputs: a file handle that records whether it is open, its size, its contiguous range,
  its position and how often it was flushed; a card that counts the sector writes it
  served. \<open>test_env attr file n rom alloc\<close> has the attribute byte \<open>attr\<close> for every
  path, opens every path as \<open>file\<close>, has a card of \<open>n\<close> sectors, the ROM drive
  \<open>rom\<close> and the configuration flag \<open>alloc\<close>; \<^verbatim>\<open>unsigned long\<close> has 32 bits.
\<close>

record testfile =
  tf_open :: bool
  tf_size :: uint64_t
  tf_range :: "(uint32_t \<times> uint32_t) option"
  tf_pos :: uint64_t
  tf_flushed :: nat

definition closed_file :: testfile where
  "closed_file = \<lparr> tf_open = False, tf_size = 0, tf_range = None, tf_pos = 0, tf_flushed = 0 \<rparr>"

definition open_file :: "uint64_t \<Rightarrow> (uint32_t \<times> uint32_t) option \<Rightarrow> testfile" where
  "open_file n r = \<lparr> tf_open = True, tf_size = n, tf_range = r, tf_pos = 0, tf_flushed = 0 \<rparr>"

definition test_env ::
  "uint8_t \<Rightarrow> testfile \<Rightarrow> uint32_t \<Rightarrow> uint32_t option \<Rightarrow> bool \<Rightarrow> (testfile, nat) collab" where
  "test_env attr file n rom alloc =
     \<lparr> SD_attrib = (\<lambda>_. attr),
       SD_open = (\<lambda>_ _. file),
       sectorCount = n,
       readSectors = (\<lambda>c _ k. (True, replicate (unat k * 512) 0, c)),
       writeSectors = (\<lambda>c _ _ _. (True, Suc c)),
       FsFile_closed = closed_file,
       fs_isOpen = tf_open,
       fs_size = tf_size,
       fs_contiguousRange = tf_range,
       fs_seek = (\<lambda>f p. if tf_open f \<and> p \<le> tf_size f then (True, f\<lparr>tf_pos := p\<rparr>) else (False, f)),
       fs_read = (\<lambda>f k. if tf_open f then (int k, replicate k 0, f\<lparr>tf_pos := tf_pos f + of_nat k\<rparr>)
                        else (- 1, [], f)),
       fs_write = (\<lambda>f b k. if tf_open f then (int k, f\<lparr>tf_pos := tf_pos f + of_nat k\<rparr>) else (0, f)),
       fs_flush = (\<lambda>f. f\<lparr>tf_flushed := Suc (tf_flushed f)\<rparr>),
       fs_close = (\<lambda>f. (tf_open f, f\<lparr>tf_open := False\<rparr>)),
       fs_curPosition = tf_pos,
       romDriveCheckPresent = rom,
       romDriveRead = (\<lambda>_ k. (True, replicate k 0)),
       ini_getbool_UseFATAllocSize = alloc,
       ULONG_MAX = 4294967295,
       past_terminator = [] \<rparr>"

text \<open>The same instance with a card whose sector writes fail.\<close>

definition failing_card_env :: "(testfile, nat) collab" where
  "failing_card_env =
     (test_env 0 closed_file 1000 None False)
       \<lparr> writeSectors := (\<lambda>c _ _ _. (False, c)),
         readSectors := (\<lambda>c _ _. (False, [], c)),
         romDriveRead := (\<lambda>_ _. (False, [])) \<rparr>"

text \<open>The instances and stores that the examples below run on.\<close>

definition raw_env :: "(testfile, nat) collab" where
  "raw_env = test_env 0 closed_file 1000 None False"

definition promoted_env :: "(testfile, nat) collab" where
  "promoted_env = test_env 0 (open_file 5120 (Some (100, 115))) 1000 None False"

definition promoted_store :: "testfile ImageBackingStore" where
  "promoted_store = ImageBackingStore_open promoted_env 0 ''image.hda'' 512"

definition exact_fit_env :: "(testfile, nat) collab" where
  "exact_fit_env = test_env 0 (open_file 5120 (Some (100, 109))) 1000 None False"

text \<open>
  The same file with one and with two sectors of slack in its allocation, and the
  configuration flag \<^verbatim>\<open>UseFATAllocSize\<close> set.
\<close>

definition one_slack_env :: "(testfile, nat) collab" where
  "one_slack_env = test_env 0 (open_file 5120 (Some (100, 110))) 1000 None True"

definition two_slack_env :: "(testfile, nat) collab" where
  "two_slack_env = test_env 0 (open_file 5120 (Some (100, 111))) 1000 None True"

definition small_card_env :: "(testfile, nat) collab" where
  "small_card_env = test_env 0 closed_file 10 None False"

definition ro_file_env :: "(testfile, nat) collab" where
  "ro_file_env = test_env 1 (open_file 5120 None) 1000 None False"

definition ro_file_store :: "testfile ImageBackingStore" where
  "ro_file_store = ImageBackingStore_open ro_file_env 0 ''image.hda'' 512"

definition rom_env :: "(testfile, nat) collab" where
  "rom_env = test_env 0 closed_file 1000 (Some 4096) False"

definition rom_store :: "testfile ImageBackingStore" where
  "rom_store = ImageBackingStore_open rom_env 0 ''ROM:'' 512"

definition failing_raw_store :: "testfile ImageBackingStore" where
  "failing_raw_store = ImageBackingStore_open failing_card_env 0 ''RAW:0:99'' 512"

text \<open>
  The promotion rule in the words of the specification: the range query succeeds, the
  span \<open>end - begin + 1\<close> is at least the file's sector count, and the block size is a
  multiple of the sector size.
\<close>

definition spec_promotes :: "('fs, 'card) collab \<Rightarrow> 'fs \<Rightarrow> uint32_t \<Rightarrow> bool" where
  "spec_promotes env f bs =
     (case fs_contiguousRange env f of
        None \<Rightarrow> False
      | Some (b, e) \<Rightarrow>
          int (unat (fs_size env f) div 512) \<le> int (unat e) - int (unat b) + 1
          \<and> unat bs mod 512 = 0)"

section \<open>Evaluation and arithmetic lemmas\<close>

lemma strncasecmp_numeral:
  "strncasecmp s1 s2 (numeral k) =
     (let c1 = tolower (deref s1); c2 = tolower (deref s2)
      in if c1 \<noteq> c2 then int (of_char c1) - int (of_char c2)
         else if c1 = NUL then 0
         else strncasecmp (tl s1) (tl s2) (pred_numeral k))"
  by (simp add: numeral_eq_Suc)

lemmas ctor_defs = ImageBackingStore_open_def ctor_raw_def ctor_rom_def ctor_file_def
  ImageBackingStore_default_def ptr_succ_def

lemmas libc_defs = strncasecmp_numeral tolower_def deref_def NUL_def strtoul_def isspace_def
  digit_val_def is_digit_in_def

lemmas test_defs = test_env_def closed_file_def open_file_def SD_SECTOR_SIZE_def
  FS_ATTRIB_READ_ONLY_def

lemma ULONG_MAX_raw_env: "ULONG_MAX raw_env = 4294967295"
  by (simp add: raw_env_def test_env_def)

lemma sectorCount_raw_env: "sectorCount raw_env = 1000"
  by (simp add: raw_env_def test_env_def)

lemma promoted_store_eq:
  "promoted_store =
     \<lparr> m_israw = True, m_isrom = False, m_isreadonly_attr = False,
       m_blockdev = SD_card, m_bgnsector = 100, m_endsector = 109, m_cursector = 0,
       m_romhdr_imagesize = 0,
       m_fsfile = \<lparr> tf_open = True, tf_size = 5120, tf_range = Some (100, 115), tf_pos = 0,
                    tf_flushed = 1 \<rparr> \<rparr>"
  by (simp add: promoted_store_def promoted_env_def ctor_defs libc_defs test_defs)

lemma unat_mult_512_aligned: "unat ((x :: uint64_t) * 512) mod 512 = 0"
proof -
  have d: "(512::nat) dvd 2 ^ 64" by simp
  have "unat (x * 512) = unat x * 512 mod 2 ^ 64"
    by (simp add: unat_word_ariths)
  then have "unat (x * 512) mod 512 = unat x * 512 mod 512"
    using mod_mod_cancel [OF d] by simp
  then show ?thesis by simp
qed

lemma unat_ucast64_mod_512: "unat (ucast (c :: 's::len word) :: uint64_t) mod 512 = unat c mod 512"
proof -
  have d: "(512::nat) dvd 2 ^ 64" by simp
  have "unat (ucast c :: uint64_t) = unat c mod 2 ^ 64"
    by (simp add: unsigned_ucast_eq take_bit_eq_mod)
  then show ?thesis
    using mod_mod_cancel [OF d] by simp
qed

lemma seek_check_unaligned:
  assumes "unat (pos :: uint64_t) mod 512 \<noteq> 0"
  shows "(ucast (sn :: uint32_t) :: uint64_t) * SD_SECTOR_SIZE \<noteq> pos"
proof
  assume "(ucast sn :: uint64_t) * SD_SECTOR_SIZE = pos"
  then have "unat pos mod 512 = 0"
    using unat_mult_512_aligned [of "ucast sn"] by (simp add: SD_SECTOR_SIZE_def)
  with assms show False by simp
qed

lemma count_check_unaligned:
  assumes "unat (count :: 's::len word) mod 512 \<noteq> 0"
  shows "(ucast (sc :: uint32_t) :: uint64_t) * SD_SECTOR_SIZE \<noteq> ucast count"
proof
  assume "(ucast sc :: uint64_t) * SD_SECTOR_SIZE = ucast count"
  then have "unat (ucast count :: uint64_t) mod 512 = 0"
    using unat_mult_512_aligned [of "ucast sc"] by (simp add: SD_SECTOR_SIZE_def)
  with assms show False by (simp add: unat_ucast64_mod_512)
qed

lemma seek_unaligned:
  assumes "m_israw s" "\<not> m_isrom s" "unat pos mod 512 \<noteq> 0"
  shows "seek env s pos =
           Inr (fst (fs_seek env (m_fsfile s) pos),
                s\<lparr>m_israw := False, m_fsfile := snd (fs_seek env (m_fsfile s) pos)\<rparr>)"
  using assms seek_check_unaligned [OF assms(3)]
  by (simp add: seek_def Let_def split: prod.splits)

lemma read_unaligned:
  assumes "m_israw s" "\<not> m_isrom s" "unat count mod 512 \<noteq> 0"
  shows "read env s dev count =
           Inr (fst (fs_read env (m_fsfile s) (unat count)),
                fst (snd (fs_read env (m_fsfile s) (unat count))),
                s\<lparr>m_israw := False, m_fsfile := snd (snd (fs_read env (m_fsfile s) (unat count)))\<rparr>,
                dev)"
  using assms count_check_unaligned [OF assms(3)]
  by (simp add: read_def Let_def split: prod.splits)

lemma write_unaligned:
  assumes "m_israw s" "\<not> m_isrom s" "unat count mod 512 \<noteq> 0"
  shows "write_buf env s dev buf count =
           (if m_isreadonly_attr s then (0, s\<lparr>m_israw := False\<rparr>, dev)
            else (fst (fs_write env (m_fsfile s) buf (unat count)),
                  s\<lparr>m_israw := False, m_fsfile := snd (fs_write env (m_fsfile s) buf (unat count))\<rparr>,
                  dev))"
  using assms count_check_unaligned [OF assms(3)]
  by (simp add: write_buf_def Let_def split: prod.splits)

lemma seek_flags:
  "seek env s pos = Inr (r, s') \<Longrightarrow>
     m_isrom s' = m_isrom s \<and> (\<not> m_israw s \<longrightarrow> \<not> m_israw s') \<and>
     m_bgnsector s' = m_bgnsector s \<and> m_endsector s' = m_endsector s \<and>
     m_isreadonly_attr s' = m_isreadonly_attr s"
  by (auto simp: seek_def Let_def split: prod.splits if_splits)

lemma read_flags:
  "read env s dev count = Inr (r, b, s', dev') \<Longrightarrow>
     m_isrom s' = m_isrom s \<and> (\<not> m_israw s \<longrightarrow> \<not> m_israw s') \<and>
     m_bgnsector s' = m_bgnsector s \<and> m_endsector s' = m_endsector s \<and>
     m_isreadonly_attr s' = m_isreadonly_attr s"
  by (auto simp: read_def Let_def split: prod.splits if_splits)

lemma write_flags:
  "write_buf env s dev buf count = (r, s', dev') \<Longrightarrow>
     m_isrom s' = m_isrom s \<and> (\<not> m_israw s \<longrightarrow> \<not> m_israw s') \<and>
     m_bgnsector s' = m_bgnsector s \<and> m_endsector s' = m_endsector s \<and>
     m_isreadonly_attr s' = m_isreadonly_attr s"
  by (auto simp: write_buf_def Let_def split: prod.splits if_splits)

lemma close_flags:
  "close env s = (r, s') \<Longrightarrow>
     m_isrom s' = m_isrom s \<and> m_israw s' = m_israw s \<and>
     m_bgnsector s' = m_bgnsector s \<and> m_endsector s' = m_endsector s \<and>
     m_isreadonly_attr s' = m_isreadonly_attr s"
  by (auto simp: close_def Let_def split: prod.splits if_splits)

lemma flush_flags:
  "m_isrom (flush env s) = m_isrom s \<and> m_israw (flush env s) = m_israw s \<and>
   m_bgnsector (flush env s) = m_bgnsector s \<and> m_endsector (flush env s) = m_endsector s \<and>
   m_isreadonly_attr (flush env s) = m_isreadonly_attr s"
  by (simp add: flush_def)

lemma call_flags:
  assumes "call env m (s, dev) = Inr (s', dev')"
  shows "m_isrom s' = m_isrom s \<and> (\<not> m_israw s \<longrightarrow> \<not> m_israw s') \<and>
     m_bgnsector s' = m_bgnsector s \<and> m_endsector s' = m_endsector s \<and>
     m_isreadonly_attr s' = m_isreadonly_attr s"
proof (cases m)
  case Close
  with assms show ?thesis
    using close_flags [of env s "fst (close env s)" "snd (close env s)"]
    by (auto simp: call_def)
next
  case Flush
  with assms show ?thesis using flush_flags [of env s] by (auto simp: call_def)
next
  case (Seek pos)
  with assms show ?thesis
    by (auto simp: call_def split: sum.splits dest: seek_flags)
next
  case (Read count)
  with assms show ?thesis
    by (auto simp: call_def split: sum.splits dest: read_flags)
next
  case (Write buf count)
  with assms show ?thesis
    by (auto simp: call_def split: prod.splits dest: write_flags)
qed (use assms in \<open>auto simp: call_def\<close>)

lemma calls_flags:
  "calls env ms (s, dev) = Inr (s', dev') \<Longrightarrow>
     m_isrom s' = m_isrom s \<and> (\<not> m_israw s \<longrightarrow> \<not> m_israw s') \<and>
     m_bgnsector s' = m_bgnsector s \<and> m_endsector s' = m_endsector s \<and>
     m_isreadonly_attr s' = m_isreadonly_attr s"
proof (induction ms arbitrary: s dev)
  case Nil
  then show ?case by simp
next
  case (Cons m ms)
  from Cons.prems obtain s1 dev1 where
    c: "call env m (s, dev) = Inr (s1, dev1)" and r: "calls env ms (s1, dev1) = Inr (s', dev')"
    by (auto split: sum.splits)
  from call_flags [OF c] Cons.IH [OF r] show ?case by simp
qed

text \<open>In File mode no call can fail an assertion.\<close>

lemma call_file_total:
  assumes "\<not> m_israw s" "\<not> m_isrom s"
  shows "\<exists>s' dev'. call env m (s, dev) = Inr (s', dev')"
  using assms
  by (cases m) (auto simp: call_def seek_def read_def write_buf_def Let_def split: prod.splits)

lemma calls_file_total:
  "\<not> m_israw s \<Longrightarrow> \<not> m_isrom s \<Longrightarrow> \<exists>s' dev'. calls env ms (s, dev) = Inr (s', dev')"
proof (induction ms arbitrary: s dev)
  case Nil
  then show ?case by simp
next
  case (Cons m ms)
  from call_file_total [OF Cons.prems, of env m dev] obtain s1 dev1 where
    c: "call env m (s, dev) = Inr (s1, dev1)" by blast
  from call_flags [OF c] Cons.prems have "\<not> m_israw s1" "\<not> m_isrom s1" by simp_all
  from Cons.IH [OF this] c show ?case by simp
qed

lemma ctor_raw_exclusive:
  "\<not> m_isrom s0 \<Longrightarrow> \<not> m_isrom (ctor_raw env filename bs s0)"
  by (simp add: ctor_raw_def Let_def split: prod.splits)

lemma ctor_rom_exclusive:
  "\<not> m_israw s0 \<Longrightarrow> \<not> m_israw (ctor_rom env s0)"
  by (simp add: ctor_rom_def split: option.splits)

lemma ctor_file_exclusive:
  "\<not> m_isrom s0 \<Longrightarrow> \<not> m_isrom (ctor_file env filename bs s0)"
  by (simp add: ctor_file_def Let_def split: prod.splits option.splits)

lemma open_exclusive:
  "\<not> (m_israw (ImageBackingStore_open env hdr filename bs) \<and>
      m_isrom (ImageBackingStore_open env hdr filename bs))"
  using ctor_raw_exclusive [of "ImageBackingStore_default env hdr" env filename bs]
        ctor_rom_exclusive [of "ImageBackingStore_default env hdr" env]
        ctor_file_exclusive [of "ImageBackingStore_default env hdr" env filename bs]
  by (simp add: ImageBackingStore_open_def Let_def ImageBackingStore_default_def)

lemma calls_exclusive:
  assumes "calls env ms (s, dev) = Inr (s', dev')" "\<not> (m_israw s \<and> m_isrom s)"
  shows "\<not> (m_israw s' \<and> m_isrom s')"
proof -
  have "\<not> (m_israw t \<and> m_isrom t) \<Longrightarrow> calls env ms (t, d) = Inr (s', dev') \<Longrightarrow>
          \<not> (m_israw s' \<and> m_isrom s')" for t d
  proof (induction ms arbitrary: t d)
    case Nil
    then show ?case by simp
  next
    case (Cons m ms)
    from Cons.prems(2) obtain t1 d1 where
      c: "call env m (t, d) = Inr (t1, d1)" and r: "calls env ms (t1, d1) = Inr (s', dev')"
      by (auto split: sum.splits)
    have "\<not> (m_israw t1 \<and> m_isrom t1)"
    proof (cases "m_israw t")
      case True
      with Cons.prems(1) have "\<not> m_isrom t" by simp
      with call_flags [OF c] show ?thesis by simp
    next
      case False
      with call_flags [OF c] show ?thesis by simp
    qed
    from Cons.IH [OF this r] show ?case .
  qed
  from this [OF assms(2) assms(1)] show ?thesis .
qed

lemma call_unaligned_raw:
  assumes "m_israw s" "\<not> m_isrom s" "unaligned m"
  shows "\<exists>s1 dev1. call env m (s, dev) = Inr (s1, dev1) \<and> \<not> m_israw s1 \<and> \<not> m_isrom s1"
proof (cases m)
  case (Seek pos)
  with assms seek_unaligned [of s pos env] show ?thesis
    by (simp add: call_def unaligned_def)
next
  case (Read count)
  with assms read_unaligned [of s count env dev] show ?thesis
    by (simp add: call_def unaligned_def)
next
  case (Write buf count)
  with assms write_unaligned [of s count env dev buf] show ?thesis
    by (simp add: call_def unaligned_def)
qed (use assms in \<open>simp_all add: unaligned_def\<close>)

section \<open>The claims\<close>

text \<open>
  C1. Take any store that the constructor built and any calls made on it since. If it is
  in Raw mode, a seek, read or write whose byte position or count is not a multiple of
  the sector size clears the raw flag and is served by the file handle: the result and
  the new handle are those of the SdFat call. After such a call the store is in File
  mode and stays there whatever calls follow, and those calls all return. No call ever
  enters or leaves Rom mode, and no call enters Raw mode.
\<close>

theorem raw_unaligned_access_demotes_for_good:
  assumes reach: "calls env pre (ImageBackingStore_open env hdr filename bs, dev0) = Inr (s, dev)"
  shows
    "(mode_of s = Raw \<and> unat pos mod 512 \<noteq> 0 \<longrightarrow>
        seek env s pos =
          Inr (fst (fs_seek env (m_fsfile s) pos),
               s\<lparr>m_israw := False, m_fsfile := snd (fs_seek env (m_fsfile s) pos)\<rparr>)) \<and>
     (mode_of s = Raw \<and> unat count mod 512 \<noteq> 0 \<longrightarrow>
        read env s dev count =
          Inr (fst (fs_read env (m_fsfile s) (unat count)),
               fst (snd (fs_read env (m_fsfile s) (unat count))),
               s\<lparr>m_israw := False, m_fsfile := snd (snd (fs_read env (m_fsfile s) (unat count)))\<rparr>,
               dev)) \<and>
     (mode_of s = Raw \<and> unat count mod 512 \<noteq> 0 \<longrightarrow>
        write_buf env s dev buf count =
          (if m_isreadonly_attr s then (0, s\<lparr>m_israw := False\<rparr>, dev)
           else (fst (fs_write env (m_fsfile s) buf (unat count)),
                 s\<lparr>m_israw := False, m_fsfile := snd (fs_write env (m_fsfile s) buf (unat count))\<rparr>,
                 dev))) \<and>
     (\<forall>m :: ('s::len word) request. mode_of s = Raw \<and> unaligned m \<longrightarrow>
        (\<exists>s1 dev1. call env m (s, dev) = Inr (s1, dev1) \<and> mode_of s1 = File \<and>
           (\<forall>ms :: ('s word) request list.
              \<exists>s2 dev2. calls env ms (s1, dev1) = Inr (s2, dev2) \<and> mode_of s2 = File))) \<and>
     (\<forall>(ms :: ('s word) request list) s2 dev2. calls env ms (s, dev) = Inr (s2, dev2) \<longrightarrow>
        (mode_of s2 = Rom) = (mode_of s = Rom) \<and> (mode_of s \<noteq> Raw \<longrightarrow> mode_of s2 \<noteq> Raw))"
proof -
  have ex: "\<not> (m_israw s \<and> m_isrom s)"
    using calls_exclusive [OF reach open_exclusive] .
  have raw: "mode_of s = Raw \<Longrightarrow> m_israw s \<and> \<not> m_isrom s"
    using ex by (simp add: mode_of_def split: if_splits)
  have p1: "mode_of s = Raw \<and> unat pos mod 512 \<noteq> 0 \<longrightarrow>
        seek env s pos =
          Inr (fst (fs_seek env (m_fsfile s) pos),
               s\<lparr>m_israw := False, m_fsfile := snd (fs_seek env (m_fsfile s) pos)\<rparr>)"
    using raw seek_unaligned [of s pos env] by blast
  have p2: "mode_of s = Raw \<and> unat count mod 512 \<noteq> 0 \<longrightarrow>
        read env s dev count =
          Inr (fst (fs_read env (m_fsfile s) (unat count)),
               fst (snd (fs_read env (m_fsfile s) (unat count))),
               s\<lparr>m_israw := False, m_fsfile := snd (snd (fs_read env (m_fsfile s) (unat count)))\<rparr>,
               dev)"
    using raw read_unaligned [of s count env dev] by blast
  have p3: "mode_of s = Raw \<and> unat count mod 512 \<noteq> 0 \<longrightarrow>
        write_buf env s dev buf count =
          (if m_isreadonly_attr s then (0, s\<lparr>m_israw := False\<rparr>, dev)
           else (fst (fs_write env (m_fsfile s) buf (unat count)),
                 s\<lparr>m_israw := False, m_fsfile := snd (fs_write env (m_fsfile s) buf (unat count))\<rparr>,
                 dev))"
    using raw write_unaligned [of s count env dev buf] by blast
  have p4: "\<exists>s1 dev1. call env m (s, dev) = Inr (s1, dev1) \<and> mode_of s1 = File \<and>
           (\<forall>ms :: ('s word) request list.
              \<exists>s2 dev2. calls env ms (s1, dev1) = Inr (s2, dev2) \<and> mode_of s2 = File)"
    if h: "mode_of s = Raw \<and> unaligned m" for m :: "('s word) request"
  proof -
    from h raw have "m_israw s" "\<not> m_isrom s" "unaligned m" by simp_all
    from call_unaligned_raw [OF this, of env dev] obtain s1 dev1 where
      c: "call env m (s, dev) = Inr (s1, dev1)" and f: "\<not> m_israw s1" "\<not> m_isrom s1" by blast
    have "\<exists>s2 dev2. calls env ms (s1, dev1) = Inr (s2, dev2) \<and> mode_of s2 = File"
      for ms :: "('s word) request list"
    proof -
      from calls_file_total [OF f, of env ms dev1] obtain s2 dev2 where
        r: "calls env ms (s1, dev1) = Inr (s2, dev2)" by blast
      from calls_flags [OF r] f have "mode_of s2 = File" by (simp add: mode_of_def)
      with r show ?thesis by blast
    qed
    with c f show ?thesis by (auto simp: mode_of_def)
  qed
  have p5: "(mode_of s2 = Rom) = (mode_of s = Rom) \<and> (mode_of s \<noteq> Raw \<longrightarrow> mode_of s2 \<noteq> Raw)"
    if r: "calls env ms (s, dev) = Inr (s2, dev2)" for ms :: "('s word) request list" and s2 dev2
  proof -
    have ex2: "\<not> (m_israw s2 \<and> m_isrom s2)" using calls_exclusive [OF r ex] .
    from calls_flags [OF r] ex ex2 show ?thesis
      by (auto simp: mode_of_def split: if_splits)
  qed
  from p1 p2 p3 p4 p5 show ?thesis by blast
qed

theorem raw_unaligned_access_demotes_for_good_witness:
  "calls promoted_env ([] :: uint32_t request list)
     (ImageBackingStore_open promoted_env 0 ''image.hda'' 512, 0 :: nat) = Inr (promoted_store, 0) \<and>
   mode_of promoted_store = Raw \<and> unat (100 :: uint64_t) mod 512 \<noteq> 0 \<and>
   unaligned (Seek 100 :: uint32_t request) \<and>
   seek promoted_env promoted_store 100 =
     Inr (True, promoted_store\<lparr>m_israw := False, m_fsfile := (m_fsfile promoted_store)\<lparr>tf_pos := 100\<rparr>\<rparr>) \<and>
   (\<exists>s1 dev1. call promoted_env (Seek 100 :: uint32_t request) (promoted_store, 0 :: nat) = Inr (s1, dev1) \<and>
      mode_of s1 = File \<and>
      (\<forall>ms :: uint32_t request list.
         \<exists>s2 dev2. calls promoted_env ms (s1, dev1) = Inr (s2, dev2) \<and> mode_of s2 = File))"
proof -
  have h: "calls promoted_env ([] :: uint32_t request list)
     (ImageBackingStore_open promoted_env 0 ''image.hda'' 512, 0 :: nat) = Inr (promoted_store, 0)"
    by (simp add: promoted_store_def)
  have m: "mode_of promoted_store = Raw" by (simp add: promoted_store_eq mode_of_def)
  have u: "unat (100 :: uint64_t) mod 512 \<noteq> 0" by simp
  have um: "unaligned (Seek 100 :: uint32_t request)" by (simp add: unaligned_def)
  note t = raw_unaligned_access_demotes_for_good [OF h, where pos = 100]
  from t m u have
    "seek promoted_env promoted_store 100 =
       Inr (fst (fs_seek promoted_env (m_fsfile promoted_store) 100),
            promoted_store\<lparr>m_israw := False,
              m_fsfile := snd (fs_seek promoted_env (m_fsfile promoted_store) 100)\<rparr>)"
    by blast
  then have sk: "seek promoted_env promoted_store 100 =
     Inr (True, promoted_store\<lparr>m_israw := False, m_fsfile := (m_fsfile promoted_store)\<lparr>tf_pos := 100\<rparr>\<rparr>)"
    by (simp add: promoted_store_eq promoted_env_def test_defs)
  from t m um have
    "\<exists>s1 dev1. call promoted_env (Seek 100 :: uint32_t request) (promoted_store, 0 :: nat) = Inr (s1, dev1) \<and>
      mode_of s1 = File \<and>
      (\<forall>ms :: uint32_t request list.
         \<exists>s2 dev2. calls promoted_env ms (s1, dev1) = Inr (s2, dev2) \<and> mode_of s2 = File)"
    by blast
  with h m u um sk show ?thesis by blast
qed

subsection \<open>Lemmas on the constructor\<close>

lemma unat_sectors_to_bytes:
  "unat ((ucast (n :: uint32_t) :: uint64_t) * SD_SECTOR_SIZE) = unat n * 512"
proof -
  have n: "unat n < 2 ^ 32" using unsigned_less [of n] by simp
  have u: "unat (ucast n :: uint64_t) = unat n"
    using n by (simp add: unsigned_ucast_eq take_bit_nat_eq_self)
  have "unat n * 512 < 2 ^ 64" using n by simp
  then have "unat n * 512 mod 2 ^ 64 = unat n * 512" by simp
  then show ?thesis
    by (simp add: SD_SECTOR_SIZE_def unat_word_ariths u)
qed

lemma unat_span:
  assumes "(b :: uint32_t) \<le> e" "e < n"
  shows "unat (e - b + 1) = unat e - unat b + 1"
proof -
  have be: "unat b \<le> unat e" using assms(1) by (simp add: word_le_nat_alt)
  have en: "unat e < unat n" using assms(2) by (simp add: word_less_nat_alt)
  have nn: "unat n < 2 ^ 32" using unsigned_less [of n] by simp
  have s: "unat (e - b) = unat e - unat b" using assms(1) by (simp add: unat_sub)
  have "unat (e - b) + unat (1 :: uint32_t) < 2 ^ 32" using s en nn by simp
  then have "unat (e - b + 1) = unat (e - b) + unat (1 :: uint32_t)"
    using unat_add_lem [of "e - b" 1] by simp
  with s show ?thesis by simp
qed

lemma ctor_raw_wellformed:
  assumes p1: "strtoul (ULONG_MAX env) (drop 4 filename) = (vb, CHR '':'' # r)"
      and p2: "strtoul (ULONG_MAX env) r = (ve, [])"
      and bs: "bs mod SD_SECTOR_SIZE = 0"
  shows "ctor_raw env filename bs (ImageBackingStore_default env hdr) =
           (ImageBackingStore_default env hdr)
             \<lparr>m_israw := True, m_blockdev := SD_card, m_bgnsector := of_nat vb,
              m_endsector := (if sectorCount env \<le> of_nat ve then sectorCount env - 1 else of_nat ve)\<rparr>"
  using assms
  by (simp add: ctor_raw_def ptr_succ_def deref_def NUL_def ImageBackingStore_default_def)

lemma ctor_file_cases:
  "ctor_file env filename bs (ImageBackingStore_default env hdr) =
     (let ro = (and FS_ATTRIB_READ_ONLY (SD_attrib env filename) \<noteq> 0);
          f = SD_open env filename (if ro then O_RDONLY else O_RDWR);
          sc = (ucast (fs_size env f div SD_SECTOR_SIZE) :: uint32_t);
          s1 = (ImageBackingStore_default env hdr)\<lparr>m_isreadonly_attr := ro, m_fsfile := f\<rparr>
      in case fs_contiguousRange env f of
           None \<Rightarrow> s1
         | Some (b, e) \<Rightarrow>
             if b + sc \<le> e \<and> bs mod SD_SECTOR_SIZE = 0
             then s1\<lparr>m_israw := True, m_blockdev := SD_card, m_bgnsector := b,
                     m_endsector := b + (if e \<noteq> b + sc \<and> ini_getbool_UseFATAllocSize env
                                         then e - b + 1 else sc) - 1,
                     m_fsfile := fs_flush env f\<rparr>
             else s1)"
  by (simp add: ctor_file_def Let_def ImageBackingStore_default_def split: option.splits)

lemma ro_file_store_eq:
  "ro_file_store =
     \<lparr> m_israw = False, m_isrom = False, m_isreadonly_attr = True,
       m_blockdev = nullptr, m_bgnsector = 0, m_endsector = 0, m_cursector = 0,
       m_romhdr_imagesize = 0, m_fsfile = open_file 5120 None \<rparr>"
  by (simp add: ro_file_store_def ro_file_env_def ctor_defs libc_defs test_defs)

lemma rom_store_eq:
  "rom_store =
     \<lparr> m_israw = False, m_isrom = True, m_isreadonly_attr = False,
       m_blockdev = nullptr, m_bgnsector = 0, m_endsector = 0, m_cursector = 0,
       m_romhdr_imagesize = 4096, m_fsfile = closed_file \<rparr>"
  by (simp add: rom_store_def rom_env_def ctor_defs libc_defs test_defs)

text \<open>
  C2. The claim is that a file is promoted exactly when the range query succeeds, the
  span \<open>end - begin + 1\<close> is at least the file's sector count, and the block size
  is a multiple of the sector size. The constructor reads \<^verbatim>\<open>end\<close> as the last
  sector of the range (\<^verbatim>\<open>allocsize = end - begin + 1\<close>,
  \<^verbatim>\<open>m_endsector = begin + sectorcount - 1\<close>), but its guard is
  \<^verbatim>\<open>end >= begin + sectorcount\<close>, one sector too many. A file of 5120 bytes
  (10 sectors) on sectors 100 to 109 satisfies the claim's condition and stays in File
  mode. The same expression in \<^verbatim>\<open>end != begin + sectorcount\<close> skips the
  \<^verbatim>\<open>UseFATAllocSize\<close> flag when the allocation has exactly one sector of slack:
  with the flag set, a range of 100 to 110 gives the end sector 109, a range of 100 to
  111 gives 111.
\<close>

theorem exact_fit_file_is_not_promoted:
  "strncasecmp ''image.hda'' ''RAW:'' 4 \<noteq> 0 \<and> strncasecmp ''image.hda'' ''ROM:'' 4 \<noteq> 0 \<and>
   and FS_ATTRIB_READ_ONLY (SD_attrib exact_fit_env ''image.hda'') = 0 \<and>
   fs_contiguousRange exact_fit_env (SD_open exact_fit_env ''image.hda'' O_RDWR) = Some (100, 109) \<and>
   fs_size exact_fit_env (SD_open exact_fit_env ''image.hda'' O_RDWR) = 5120 \<and>
   spec_promotes exact_fit_env (SD_open exact_fit_env ''image.hda'' O_RDWR) 512 \<and>
   mode_of (ImageBackingStore_open exact_fit_env 0 ''image.hda'' 512) = File \<and>
   \<not> ((mode_of (ImageBackingStore_open exact_fit_env 0 ''image.hda'' 512) = Raw) =
      spec_promotes exact_fit_env (SD_open exact_fit_env ''image.hda'' O_RDWR) 512) \<and>
   ini_getbool_UseFATAllocSize one_slack_env \<and>
   fs_contiguousRange one_slack_env (SD_open one_slack_env ''image.hda'' O_RDWR) = Some (100, 110) \<and>
   mode_of (ImageBackingStore_open one_slack_env 0 ''image.hda'' 512) = Raw \<and>
   m_endsector (ImageBackingStore_open one_slack_env 0 ''image.hda'' 512) = 109 \<and>
   ini_getbool_UseFATAllocSize two_slack_env \<and>
   fs_contiguousRange two_slack_env (SD_open two_slack_env ''image.hda'' O_RDWR) = Some (100, 111) \<and>
   m_endsector (ImageBackingStore_open two_slack_env 0 ''image.hda'' 512) = 111"
  by (simp add: exact_fit_env_def one_slack_env_def two_slack_env_def spec_promotes_def
        ctor_defs libc_defs test_defs mode_of_def)

text \<open>
  C3. A descriptor \<^verbatim>\<open>RAW:b:e\<close> whose two fields \<^verbatim>\<open>strtoul\<close> reads completely (the
  first up to the colon, the second up to the end of the string), with \<open>e\<close> below
  the card's sector count and a block size that is a multiple of the sector size, gives
  an open store whose size is \<open>(e - b + 1) * SD_SECTOR_SIZE\<close>, computed as the code
  does (the difference in 32 bits, the product in 64 bits), and whose contiguous range is
  \<open>(b, e)\<close>. For \<open>b \<le> e\<close> the size is that product of natural numbers.
\<close>

theorem raw_descriptor_in_range:
  assumes prefix: "strncasecmp filename ''RAW:'' 4 = 0"
      and p1: "strtoul (ULONG_MAX env) (drop 4 filename) = (vb, CHR '':'' # r)"
      and p2: "strtoul (ULONG_MAX env) r = (ve, [])"
      and lt: "(of_nat ve :: uint32_t) < sectorCount env"
      and bs: "bs mod SD_SECTOR_SIZE = 0"
  shows "isOpen env (ImageBackingStore_open env hdr filename bs) \<and>
         size_bytes env (ImageBackingStore_open env hdr filename bs) =
           ucast ((of_nat ve :: uint32_t) - of_nat vb + 1) * SD_SECTOR_SIZE \<and>
         ((of_nat vb :: uint32_t) \<le> of_nat ve \<longrightarrow>
            unat (size_bytes env (ImageBackingStore_open env hdr filename bs)) =
              (unat (of_nat ve :: uint32_t) - unat (of_nat vb :: uint32_t) + 1) * 512) \<and>
         contiguousRange env (ImageBackingStore_open env hdr filename bs) =
           Some (of_nat vb, of_nat ve)"
proof -
  let ?st = "ImageBackingStore_open env hdr filename bs"
  have st: "?st = (ImageBackingStore_default env hdr)
             \<lparr>m_israw := True, m_blockdev := SD_card, m_bgnsector := of_nat vb,
              m_endsector := of_nat ve\<rparr>"
    using prefix ctor_raw_wellformed [OF p1 p2 bs, of hdr] lt
    by (simp add: ImageBackingStore_open_def)
  have o: "isOpen env ?st" by (simp add: st isOpen_def)
  have sz: "size_bytes env ?st = ucast ((of_nat ve :: uint32_t) - of_nat vb + 1) * SD_SECTOR_SIZE"
    by (simp add: st size_bytes_def)
  have szn: "unat (size_bytes env ?st) =
              (unat (of_nat ve :: uint32_t) - unat (of_nat vb :: uint32_t) + 1) * 512"
    if "(of_nat vb :: uint32_t) \<le> of_nat ve"
    using unat_span [OF that lt] by (simp add: sz unat_sectors_to_bytes)
  have cr: "contiguousRange env ?st = Some (of_nat vb, of_nat ve)"
    by (simp add: st contiguousRange_def)
  from o sz szn cr show ?thesis by blast
qed

theorem raw_descriptor_in_range_witness:
  "strncasecmp ''RAW:16:99'' ''RAW:'' 4 = 0 \<and>
   strtoul (ULONG_MAX raw_env) (drop 4 ''RAW:16:99'') = (16, CHR '':'' # ''99'') \<and>
   strtoul (ULONG_MAX raw_env) ''99'' = (99, []) \<and>
   (of_nat 99 :: uint32_t) < sectorCount raw_env \<and>
   (512 :: uint32_t) mod SD_SECTOR_SIZE = 0 \<and>
   isOpen raw_env (ImageBackingStore_open raw_env 0 ''RAW:16:99'' 512) \<and>
   size_bytes raw_env (ImageBackingStore_open raw_env 0 ''RAW:16:99'' 512) = 43008 \<and>
   contiguousRange raw_env (ImageBackingStore_open raw_env 0 ''RAW:16:99'' 512) = Some (16, 99)"
proof -
  have h1: "strncasecmp ''RAW:16:99'' ''RAW:'' 4 = 0" by (simp add: libc_defs)
  have h2: "strtoul (ULONG_MAX raw_env) (drop 4 ''RAW:16:99'') = (16, CHR '':'' # ''99'')"
    by (simp add: ULONG_MAX_raw_env libc_defs)
  have h3: "strtoul (ULONG_MAX raw_env) ''99'' = (99, [])"
    by (simp add: ULONG_MAX_raw_env libc_defs)
  have h4: "(of_nat 99 :: uint32_t) < sectorCount raw_env" by (simp add: sectorCount_raw_env)
  have h5: "(512 :: uint32_t) mod SD_SECTOR_SIZE = 0" by (simp add: SD_SECTOR_SIZE_def)
  from raw_descriptor_in_range [OF h1 h2 h3 h4 h5, of 0] h1 h2 h3 h4 h5
  show ?thesis by (simp add: SD_SECTOR_SIZE_def)
qed

text \<open>
  C4, as stated, fails. \<^verbatim>\<open>RAW:100:50\<close> on a card of 10 sectors gives an open store in
  Raw mode with \<^verbatim>\<open>m_bgnsector = 100\<close> and \<^verbatim>\<open>m_endsector = 9\<close>: the end is cut
  to the last sector of the card, the begin is never compared with anything.
\<close>

theorem raw_range_invariant_counterexample:
  "isOpen small_card_env (ImageBackingStore_open small_card_env 0 ''RAW:100:50'' 512) \<and>
   mode_of (ImageBackingStore_open small_card_env 0 ''RAW:100:50'' 512) = Raw \<and>
   \<not> m_bgnsector (ImageBackingStore_open small_card_env 0 ''RAW:100:50'' 512)
       \<le> m_endsector (ImageBackingStore_open small_card_env 0 ''RAW:100:50'' 512)"
  by (simp add: small_card_env_def ctor_defs libc_defs test_defs isOpen_def mode_of_def)

text \<open>
  C4, amended. The constructor never compares the two bounds, so \<open>begin \<le> end\<close>
  holds under conditions on the input only. For \<^verbatim>\<open>RAW:b:e\<close> it holds when
  \<open>b \<le> e\<close> and \<open>b\<close> is below the card's sector count, also when \<open>e\<close>
  exceeds the count and is cut to the last sector. For a promoted file it holds when the
  file has at least one whole sector and \<open>begin + sectorcount\<close> stays below
  \<open>2 ^ 32\<close>. No later call changes either bound.
\<close>

theorem raw_range_invariant:
  assumes st: "st = ImageBackingStore_open env hdr filename bs"
      and f: "f = SD_open env filename
                    (if and FS_ATTRIB_READ_ONLY (SD_attrib env filename) \<noteq> 0 then O_RDONLY else O_RDWR)"
      and sc: "sc = (ucast (fs_size env f div SD_SECTOR_SIZE) :: uint32_t)"
  shows
    "(strncasecmp filename ''RAW:'' 4 = 0 \<and>
      strtoul (ULONG_MAX env) (drop 4 filename) = (vb, CHR '':'' # r) \<and>
      strtoul (ULONG_MAX env) r = (ve, []) \<and> bs mod SD_SECTOR_SIZE = 0 \<and>
      (of_nat vb :: uint32_t) \<le> of_nat ve \<and> (of_nat vb :: uint32_t) < sectorCount env
      \<longrightarrow> isOpen env st \<and> mode_of st = Raw \<and> m_bgnsector st \<le> m_endsector st) \<and>
     (strncasecmp filename ''RAW:'' 4 \<noteq> 0 \<and> strncasecmp filename ''ROM:'' 4 \<noteq> 0 \<and>
      mode_of st = Raw \<and> fs_contiguousRange env f = Some (b, e) \<and>
      0 < sc \<and> unat b + unat sc < 2 ^ 32
      \<longrightarrow> isOpen env st \<and> m_bgnsector st \<le> m_endsector st) \<and>
     (\<forall>(ms :: ('s::len word) request list) dev s' dev'.
        calls env ms (st, dev) = Inr (s', dev') \<longrightarrow>
        m_bgnsector s' = m_bgnsector st \<and> m_endsector s' = m_endsector st)"
proof -
  have a: "isOpen env st \<and> mode_of st = Raw \<and> m_bgnsector st \<le> m_endsector st"
    if h: "strncasecmp filename ''RAW:'' 4 = 0 \<and>
      strtoul (ULONG_MAX env) (drop 4 filename) = (vb, CHR '':'' # r) \<and>
      strtoul (ULONG_MAX env) r = (ve, []) \<and> bs mod SD_SECTOR_SIZE = 0 \<and>
      (of_nat vb :: uint32_t) \<le> of_nat ve \<and> (of_nat vb :: uint32_t) < sectorCount env"
  proof -
    from h have p1: "strtoul (ULONG_MAX env) (drop 4 filename) = (vb, CHR '':'' # r)"
      and p2: "strtoul (ULONG_MAX env) r = (ve, [])" and b: "bs mod SD_SECTOR_SIZE = 0" by simp_all
    have eq: "st = (ImageBackingStore_default env hdr)
             \<lparr>m_israw := True, m_blockdev := SD_card, m_bgnsector := of_nat vb,
              m_endsector := (if sectorCount env \<le> of_nat ve then sectorCount env - 1 else of_nat ve)\<rparr>"
      using h ctor_raw_wellformed [OF p1 p2 b, of hdr] by (simp add: st ImageBackingStore_open_def)
    have "(of_nat vb :: uint32_t) \<le> sectorCount env - 1"
    proof -
      from h have lt: "(of_nat vb :: uint32_t) < sectorCount env" by simp
      then have "unat (of_nat vb :: uint32_t) < unat (sectorCount env)" by (simp add: word_less_nat_alt)
      moreover from this have "unat (sectorCount env - 1) = unat (sectorCount env) - 1"
        by (simp add: unat_minus_one unat_eq_zero [symmetric] del: unat_eq_zero) 
      ultimately show ?thesis by (simp add: word_le_nat_alt)
    qed
    with h show ?thesis by (simp add: eq isOpen_def mode_of_def)
  qed
  have b: "isOpen env st \<and> m_bgnsector st \<le> m_endsector st"
    if h: "strncasecmp filename ''RAW:'' 4 \<noteq> 0 \<and> strncasecmp filename ''ROM:'' 4 \<noteq> 0 \<and>
      mode_of st = Raw \<and> fs_contiguousRange env f = Some (b, e) \<and>
      0 < sc \<and> unat b + unat sc < 2 ^ 32"
  proof -
    have st': "st = ctor_file env filename bs (ImageBackingStore_default env hdr)"
      using h by (simp add: st ImageBackingStore_open_def)
    from h have nz: "0 < unat sc" by (simp add: word_greater_zero_iff unat_gt_0)
    from h have sum: "unat (b + sc) = unat b + unat sc"
      using unat_add_lem [of b sc] by simp
    from h have prom: "b + sc \<le> e"
      unfolding st' ctor_file_cases
      by (auto simp: Let_def mode_of_def ImageBackingStore_default_def f sc split: if_splits)
    then have be: "b \<le> e" using sum by (simp add: word_le_nat_alt)
    have "b + sc \<noteq> 0" using sum nz by (metis add_is_0 less_numeral_extra(3) unat_0)
    then have "unat (b + sc - 1) = unat (b + sc) - 1" by (simp add: unat_minus_one)
    with sum nz have bsc: "b \<le> b + sc - 1" by (simp add: word_le_nat_alt)
    have "b + (e - b + 1) - 1 = e" by simp
    with be bsc prom h show ?thesis
      unfolding st' ctor_file_cases
      by (auto simp: Let_def mode_of_def isOpen_def ImageBackingStore_default_def f sc
               split: if_splits)
  qed
  have c: "m_bgnsector s' = m_bgnsector st \<and> m_endsector s' = m_endsector st"
    if "calls env ms (st, dev) = Inr (s', dev')"
    for ms :: "('s word) request list" and dev s' dev'
    using calls_flags [OF that] by simp
  from a b c show ?thesis by blast
qed

theorem raw_range_invariant_witness:
  "strncasecmp ''RAW:16:5000'' ''RAW:'' 4 = 0 \<and>
   strtoul (ULONG_MAX raw_env) (drop 4 ''RAW:16:5000'') = (16, CHR '':'' # ''5000'') \<and>
   strtoul (ULONG_MAX raw_env) ''5000'' = (5000, []) \<and> (512 :: uint32_t) mod SD_SECTOR_SIZE = 0 \<and>
   (of_nat 16 :: uint32_t) \<le> of_nat 5000 \<and> (of_nat 16 :: uint32_t) < sectorCount raw_env \<and>
   isOpen raw_env (ImageBackingStore_open raw_env 0 ''RAW:16:5000'' 512) \<and>
   mode_of (ImageBackingStore_open raw_env 0 ''RAW:16:5000'' 512) = Raw \<and>
   m_bgnsector (ImageBackingStore_open raw_env 0 ''RAW:16:5000'' 512)
     \<le> m_endsector (ImageBackingStore_open raw_env 0 ''RAW:16:5000'' 512) \<and>
   m_endsector (ImageBackingStore_open raw_env 0 ''RAW:16:5000'' 512) = 999"
proof -
  have h1: "strncasecmp ''RAW:16:5000'' ''RAW:'' 4 = 0" by (simp add: libc_defs)
  have h2: "strtoul (ULONG_MAX raw_env) (drop 4 ''RAW:16:5000'') = (16, CHR '':'' # ''5000'')"
    by (simp add: ULONG_MAX_raw_env libc_defs)
  have h3: "strtoul (ULONG_MAX raw_env) ''5000'' = (5000, [])"
    by (simp add: ULONG_MAX_raw_env libc_defs)
  have h4: "(512 :: uint32_t) mod SD_SECTOR_SIZE = 0" by (simp add: SD_SECTOR_SIZE_def)
  have h5: "(of_nat 16 :: uint32_t) \<le> of_nat 5000" by simp
  have h6: "(of_nat 16 :: uint32_t) < sectorCount raw_env" by (simp add: sectorCount_raw_env)
  have e: "m_endsector (ImageBackingStore_open raw_env 0 ''RAW:16:5000'' 512) = 999"
    by (simp add: raw_env_def ctor_defs libc_defs test_defs)
  note t = raw_range_invariant [OF refl refl refl,
      where filename = "''RAW:16:5000''" and env = raw_env and vb = 16 and r = "''5000''"
        and ve = 5000 and bs = 512 and hdr = 0 and b = 0 and e = 0, THEN conjunct1]
  from t h1 h2 h3 h4 h5 h6
  have "isOpen raw_env (ImageBackingStore_open raw_env 0 ''RAW:16:5000'' 512) \<and>
   mode_of (ImageBackingStore_open raw_env 0 ''RAW:16:5000'' 512) = Raw \<and>
   m_bgnsector (ImageBackingStore_open raw_env 0 ''RAW:16:5000'' 512)
     \<le> m_endsector (ImageBackingStore_open raw_env 0 ''RAW:16:5000'' 512)"
    by blast
  with h1 h2 h3 h4 h5 h6 e show ?thesis by blast
qed

text \<open>
  C5. A well-formed \<^verbatim>\<open>RAW:b:e\<close> with a supported block size and \<open>e\<close> at or
  beyond the card's sector count gives \<^verbatim>\<open>m_endsector = sectorCount - 1\<close>, and the
  size is \<open>(sectorCount - 1 - b + 1) * SD_SECTOR_SIZE\<close>, computed as the code does.
  For \<open>b\<close> below the sector count the size is that product of natural numbers.
\<close>

theorem raw_descriptor_clamped:
  assumes prefix: "strncasecmp filename ''RAW:'' 4 = 0"
      and p1: "strtoul (ULONG_MAX env) (drop 4 filename) = (vb, CHR '':'' # r)"
      and p2: "strtoul (ULONG_MAX env) r = (ve, [])"
      and ge: "sectorCount env \<le> (of_nat ve :: uint32_t)"
      and bs: "bs mod SD_SECTOR_SIZE = 0"
  shows "m_endsector (ImageBackingStore_open env hdr filename bs) = sectorCount env - 1 \<and>
         size_bytes env (ImageBackingStore_open env hdr filename bs) =
           ucast (sectorCount env - 1 - of_nat vb + 1) * SD_SECTOR_SIZE \<and>
         ((of_nat vb :: uint32_t) < sectorCount env \<longrightarrow>
            unat (size_bytes env (ImageBackingStore_open env hdr filename bs)) =
              (unat (sectorCount env) - 1 - unat (of_nat vb :: uint32_t) + 1) * 512)"
proof -
  let ?st = "ImageBackingStore_open env hdr filename bs"
  let ?b = "of_nat vb :: uint32_t"
  have st: "?st = (ImageBackingStore_default env hdr)
             \<lparr>m_israw := True, m_blockdev := SD_card, m_bgnsector := of_nat vb,
              m_endsector := sectorCount env - 1\<rparr>"
    using prefix ctor_raw_wellformed [OF p1 p2 bs, of hdr] ge
    by (simp add: ImageBackingStore_open_def)
  have e: "m_endsector ?st = sectorCount env - 1" by (simp add: st)
  have sz: "size_bytes env ?st = ucast (sectorCount env - 1 - ?b + 1) * SD_SECTOR_SIZE"
    by (simp add: st size_bytes_def)
  have szn: "unat (size_bytes env ?st) = (unat (sectorCount env) - 1 - unat ?b + 1) * 512"
    if lt: "?b < sectorCount env"
  proof -
    have "sectorCount env - 1 - ?b + 1 = sectorCount env - ?b" by simp
    moreover have "unat (sectorCount env - ?b) = unat (sectorCount env) - unat ?b"
      using lt by (simp add: unat_sub)
    moreover have "unat ?b < unat (sectorCount env)" using lt by (simp add: word_less_nat_alt)
    ultimately show ?thesis by (simp add: sz unat_sectors_to_bytes)
  qed
  from e sz szn show ?thesis by blast
qed

theorem raw_descriptor_clamped_witness:
  "strncasecmp ''raw:16:0x1388'' ''RAW:'' 4 = 0 \<and>
   strtoul (ULONG_MAX raw_env) (drop 4 ''raw:16:0x1388'') = (16, CHR '':'' # ''0x1388'') \<and>
   strtoul (ULONG_MAX raw_env) ''0x1388'' = (5000, []) \<and>
   sectorCount raw_env \<le> (of_nat 5000 :: uint32_t) \<and>
   (512 :: uint32_t) mod SD_SECTOR_SIZE = 0 \<and>
   (of_nat 16 :: uint32_t) < sectorCount raw_env \<and>
   m_endsector (ImageBackingStore_open raw_env 0 ''raw:16:0x1388'' 512) = 999 \<and>
   unat (size_bytes raw_env (ImageBackingStore_open raw_env 0 ''raw:16:0x1388'' 512)) = 984 * 512"
proof -
  have h1: "strncasecmp ''raw:16:0x1388'' ''RAW:'' 4 = 0" by (simp add: libc_defs)
  have h2: "strtoul (ULONG_MAX raw_env) (drop 4 ''raw:16:0x1388'') = (16, CHR '':'' # ''0x1388'')"
    by (simp add: ULONG_MAX_raw_env libc_defs)
  have h3: "strtoul (ULONG_MAX raw_env) ''0x1388'' = (5000, [])"
    by (simp add: ULONG_MAX_raw_env libc_defs)
  have h4: "sectorCount raw_env \<le> (of_nat 5000 :: uint32_t)" by (simp add: sectorCount_raw_env)
  have h5: "(512 :: uint32_t) mod SD_SECTOR_SIZE = 0" by (simp add: SD_SECTOR_SIZE_def)
  have h6: "(of_nat 16 :: uint32_t) < sectorCount raw_env" by (simp add: sectorCount_raw_env)
  from raw_descriptor_clamped [OF h1 h2 h3 h4 h5, of 0] h1 h2 h3 h4 h5 h6
  show ?thesis by (simp add: sectorCount_raw_env SD_SECTOR_SIZE_def)
qed

subsection \<open>Lemmas on aligned counts, the parser and the example stores\<close>

lemma unat_ucast_small:
  "unat (w :: 'a::len word) < 2 ^ LENGTH('b::len) \<Longrightarrow> unat (ucast w :: 'b word) = unat w"
  by (simp add: unsigned_ucast_eq take_bit_nat_eq_self)

lemma count_check_aligned:
  assumes al: "unat (count :: 's::len word) mod 512 = 0"
      and sm: "unat count < 2 ^ 41"
      and len: "10 \<le> LENGTH('s)"
  shows "(ucast (ucast (count div SD_SECTOR_SIZE) :: uint32_t) :: uint64_t) * SD_SECTOR_SIZE
           = ucast count"
proof -
  define q where "q = count div 512"
  define w where "w = (ucast q :: uint32_t)"
  define v where "v = (ucast w :: uint64_t)"
  have "(2::nat) ^ 10 \<le> 2 ^ LENGTH('s)" using len by (rule power_increasing) simp
  then have "(512::nat) < 2 ^ LENGTH('s)" by simp
  then have tb: "take_bit LENGTH('s) (512::nat) = 512" by (simp add: take_bit_nat_eq_self)
  have d: "unat q = unat count div 512" by (simp add: q_def unat_div tb)
  have lt: "unat count div 512 < 2 ^ 32" using sm by simp
  have u32: "unat w = unat count div 512"
    using unat_ucast_small [of q, where 'b = 32] d lt by (simp add: w_def)
  have u64: "unat v = unat count div 512"
    using unat_ucast_small [of w, where 'b = 64] u32 lt by (simp add: v_def)
  have rt: "unat count div 512 * 512 = unat count" using al by (simp add: mod_eq_0_iff_dvd)
  have "unat count div 512 * 512 < 2 ^ 64" using sm rt by simp
  then have l: "unat (v * 512) = unat count"
    using rt by (simp add: unat_word_ariths u64)
  have r: "unat (ucast count :: uint64_t) = unat count"
    using unat_ucast_small [of count, where 'b = 64] sm by simp
  from l r have "v * 512 = ucast count" by (simp add: word_unat_eq_iff)
  then show ?thesis by (simp add: SD_SECTOR_SIZE_def v_def w_def q_def)
qed


lemma failing_raw_store_eq:
  "failing_raw_store =
     \<lparr> m_israw = True, m_isrom = False, m_isreadonly_attr = False,
       m_blockdev = SD_card, m_bgnsector = 0, m_endsector = 99, m_cursector = 0,
       m_romhdr_imagesize = 0, m_fsfile = closed_file \<rparr>"
  by (simp add: failing_raw_store_def failing_card_env_def ctor_defs libc_defs test_defs)

lemma set_tl_subset: "set (tl xs) \<subseteq> set xs"
  by (cases xs) auto

lemma strtoul_digits_rest_subset:
  "set (snd (snd (strtoul_digits base acc any s))) \<subseteq> set s"
  by (induction s arbitrary: acc any) (auto split: option.splits)

lemma strtoul_rest_subset: "set (snd (strtoul u s)) \<subseteq> set s"
proof -
  define s1 where "s1 = dropWhile isspace s"
  define s2 where "s2 = (if deref s1 = CHR ''-'' \<or> deref s1 = CHR ''+'' then tl s1 else s1)"
  define hex where "hex = (deref s2 = CHR ''0''
                 \<and> (deref (tl s2) = CHR ''x'' \<or> deref (tl s2) = CHR ''X'')
                 \<and> is_digit_in 16 (deref (tl (tl s2))))"
  define s3 where "s3 = (if hex then tl (tl s2) else s2)"
  define base :: nat where "base = (if hex then 16 else if deref s2 = CHR ''0'' then 8 else 10)"
  have a: "set s1 \<subseteq> set s" by (auto simp: s1_def dest: set_dropWhileD)
  have b: "set s2 \<subseteq> set s1" using set_tl_subset [of s1] by (simp add: s2_def)
  have c: "set s3 \<subseteq> set s2"
    using set_tl_subset [of s2] set_tl_subset [of "tl s2"] by (auto simp: s3_def)
  have d: "set (snd (snd (strtoul_digits base 0 False s3))) \<subseteq> set s3"
    by (rule strtoul_digits_rest_subset)
  have eq: "strtoul u s =
      (case strtoul_digits base 0 False s3 of
         (acc, any, rest) \<Rightarrow>
           if \<not> any then (0, s)
           else if acc > u then (u, rest)
           else if deref s1 = CHR ''-'' then ((u + 1 - acc) mod (u + 1), rest)
           else (acc, rest))"
    by (simp only: strtoul_def Let_def base_def s3_def hex_def s2_def s1_def)
  obtain acc any rest where dg: "strtoul_digits base 0 False s3 = (acc, any, rest)"
    by (cases "strtoul_digits base 0 False s3") auto
  have "snd (strtoul u s) = s \<or> snd (strtoul u s) = snd (snd (strtoul_digits base 0 False s3))"
    by (simp add: eq dg)
  moreover have "set (snd (snd (strtoul_digits base 0 False s3))) \<subseteq> set s"
    using a b c d by blast
  ultimately show ?thesis by auto
qed

lemma deref_in_set: "deref p \<noteq> NUL \<Longrightarrow> deref p \<in> set p"
  by (cases p) (simp_all add: deref_def)

lemma strtoul_no_number:
  assumes "\<not> isspace c" "c \<noteq> CHR ''-''" "c \<noteq> CHR ''+''" "\<not> is_digit_in 10 c"
  shows "strtoul u (c # cs) = (0, c # cs)"
proof -
  have z: "c \<noteq> CHR ''0''" using assms(4) by (auto simp: is_digit_in_def digit_val_def)
  have d: "strtoul_digits 10 0 False (c # cs) = (0, False, c # cs)"
    using assms(4) by (simp add: is_digit_in_def split: option.splits)
  show ?thesis using assms z d by (simp add: strtoul_def deref_def)
qed

lemma decimal_digit_plain:
  "is_digit_in 10 d \<Longrightarrow> \<not> isspace d \<and> d \<noteq> CHR ''-'' \<and> d \<noteq> CHR ''+''"
  by (auto simp: is_digit_in_def digit_val_def isspace_def Let_def split: if_splits)

lemma strtoul_digits_decimal:
  "list_all (is_digit_in 10) ds \<Longrightarrow> \<not> is_digit_in 10 c \<Longrightarrow>
     snd (strtoul_digits 10 acc any (ds @ c # rest)) = (any \<or> ds \<noteq> [], c # rest)"
proof (induction ds arbitrary: acc any)
  case Nil
  then show ?case by (simp add: is_digit_in_def split: option.splits)
next
  case (Cons d ds)
  from Cons.prems obtain k where k: "digit_val d = Some k" "k < 10"
    by (auto simp: is_digit_in_def split: option.splits)
  from Cons.prems have "list_all (is_digit_in 10) ds" by simp
  from Cons.IH [OF this Cons.prems(2), of "acc * 10 + k" True] k show ?case by simp
qed

lemma strtoul_decimal_rest:
  assumes "decimal_number ds" "\<not> is_digit_in 10 c"
  shows "snd (strtoul u (ds @ c # rest)) = c # rest"
proof -
  from assms(1) obtain d ds' where ds: "ds = d # ds'" and z: "d \<noteq> CHR ''0''"
    and all: "list_all (is_digit_in 10) ds"
    by (cases ds) (auto simp: decimal_number_def)
  from all ds have "is_digit_in 10 d" by simp
  from decimal_digit_plain [OF this] have p: "\<not> isspace d" "d \<noteq> CHR ''-''" "d \<noteq> CHR ''+''"
    by simp_all
  obtain acc where dg: "strtoul_digits 10 0 False (d # ds' @ c # rest) = (acc, True, c # rest)"
    using strtoul_digits_decimal [OF all assms(2), of 0 False rest] ds
    by (cases "strtoul_digits 10 0 False (d # ds' @ c # rest)") auto
  show ?thesis
    using p z dg by (simp add: strtoul_def ds deref_def)
qed

lemma ctor_raw_malformed:
  assumes "deref (snd (strtoul (ULONG_MAX env) (drop 4 filename))) \<noteq> CHR '':'' \<or>
           deref (snd (strtoul (ULONG_MAX env)
                    (ptr_succ env (snd (strtoul (ULONG_MAX env) (drop 4 filename)))))) \<noteq> NUL"
  shows "ctor_raw env filename bs (ImageBackingStore_default env hdr) =
           (ImageBackingStore_default env hdr)
             \<lparr>m_bgnsector := of_nat (fst (strtoul (ULONG_MAX env) (drop 4 filename))),
              m_endsector := of_nat (fst (strtoul (ULONG_MAX env)
                    (ptr_succ env (snd (strtoul (ULONG_MAX env) (drop 4 filename))))))\<rparr>"
  using assms by (auto simp: ctor_raw_def Let_def split: prod.splits)

lemma ctor_raw_keeps_file:
  "m_isreadonly_attr (ctor_raw env filename bs s0) = m_isreadonly_attr s0 \<and>
   m_fsfile (ctor_raw env filename bs s0) = m_fsfile s0"
  by (simp add: ctor_raw_def Let_def split: prod.splits)

lemma ctor_rom_keeps_file:
  "m_isreadonly_attr (ctor_rom env s0) = m_isreadonly_attr s0 \<and>
   m_fsfile (ctor_rom env s0) = m_fsfile s0"
  by (simp add: ctor_rom_def split: option.splits)

text \<open>
  C6. \<^verbatim>\<open>write\<close> returns 0 when it refuses: in Rom mode and in File mode with the
  read-only attribute it returns 0 and leaves the object, the file handle and the card
  as they were, whatever the collaborators are, so no collaborator was called; when an
  aligned write in Raw mode reaches the card and \<^verbatim>\<open>writeSectors\<close> fails it returns
  0 and leaves the object as it was. \<^verbatim>\<open>read\<close> returns \<open>- 1\<close> when the card's
  or the ROM drive's read fails. An aligned count is a multiple of 512 below
  \<open>2 ^ 41\<close>, in a \<^verbatim>\<open>size_t\<close> of at least 10 bits.
\<close>

theorem write_refusal_returns_zero:
  "(mode_of s = Rom \<longrightarrow> write_buf env s dev buf count = (0, s, dev)) \<and>
   (mode_of s = File \<and> m_isreadonly_attr s \<longrightarrow> write_buf env s dev buf count = (0, s, dev)) \<and>
   (mode_of s = Raw \<and> m_blockdev s \<noteq> nullptr \<and>
    unat count mod 512 = 0 \<and> unat count < 2 ^ 41 \<and> 10 \<le> LENGTH('s) \<and>
    \<not> fst (writeSectors env dev (m_cursector s) buf (ucast (count div SD_SECTOR_SIZE)))
    \<longrightarrow> write_buf env s dev buf count =
          (0, s, snd (writeSectors env dev (m_cursector s) buf (ucast (count div SD_SECTOR_SIZE))))) \<and>
   (mode_of s = Raw \<and> m_blockdev s \<noteq> nullptr \<and>
    unat count mod 512 = 0 \<and> unat count < 2 ^ 41 \<and> 10 \<le> LENGTH('s) \<and>
    \<not> fst (readSectors env dev (m_cursector s) (ucast (count div SD_SECTOR_SIZE)))
    \<longrightarrow> (\<exists>b d. read env s dev count = Inr (- 1, b, s, d))) \<and>
   (mode_of s = Rom \<and>
    unat count mod 512 = 0 \<and> unat count < 2 ^ 41 \<and> 10 \<le> LENGTH('s) \<and>
    \<not> fst (romDriveRead env (m_cursector s * SD_SECTOR_SIZE) (unat count))
    \<longrightarrow> (\<exists>b. read env s dev count = Inr (- 1, b, s, dev)))"
  for count :: "'s::len word"
proof -
  have a: "mode_of s = Rom \<longrightarrow> write_buf env s dev buf count = (0, s, dev)"
    by (simp add: write_buf_def mode_of_def Let_def split: if_splits)
  have b: "mode_of s = File \<and> m_isreadonly_attr s \<longrightarrow> write_buf env s dev buf count = (0, s, dev)"
    by (simp add: write_buf_def mode_of_def Let_def split: if_splits)
  have c: "write_buf env s dev buf count =
          (0, s, snd (writeSectors env dev (m_cursector s) buf (ucast (count div SD_SECTOR_SIZE))))"
    if "mode_of s = Raw \<and> m_blockdev s \<noteq> nullptr \<and>
        unat count mod 512 = 0 \<and> unat count < 2 ^ 41 \<and> 10 \<le> LENGTH('s) \<and>
        \<not> fst (writeSectors env dev (m_cursector s) buf (ucast (count div SD_SECTOR_SIZE)))"
    using that count_check_aligned [of count]
    by (auto simp: write_buf_def mode_of_def Let_def split: if_splits prod.splits)
  have d: "\<exists>b d. read env s dev count = Inr (- 1, b, s, d)"
    if "mode_of s = Raw \<and> m_blockdev s \<noteq> nullptr \<and>
        unat count mod 512 = 0 \<and> unat count < 2 ^ 41 \<and> 10 \<le> LENGTH('s) \<and>
        \<not> fst (readSectors env dev (m_cursector s) (ucast (count div SD_SECTOR_SIZE)))"
    using that count_check_aligned [of count]
    by (auto simp: read_def mode_of_def Let_def split: if_splits prod.splits)
  have e: "\<exists>b. read env s dev count = Inr (- 1, b, s, dev)"
    if "mode_of s = Rom \<and>
        unat count mod 512 = 0 \<and> unat count < 2 ^ 41 \<and> 10 \<le> LENGTH('s) \<and>
        \<not> fst (romDriveRead env (m_cursector s * SD_SECTOR_SIZE) (unat count))"
    using that count_check_aligned [of count]
    by (auto simp: read_def mode_of_def Let_def split: if_splits prod.splits)
  from a b c d e show ?thesis by blast
qed

theorem write_refusal_returns_zero_witness:
  "mode_of rom_store = Rom \<and>
   write_buf rom_env rom_store (5 :: nat) [1, 2, 3] (512 :: uint32_t) = (0, rom_store, 5) \<and>
   mode_of ro_file_store = File \<and> m_isreadonly_attr ro_file_store \<and>
   write_buf ro_file_env ro_file_store (5 :: nat) [1, 2, 3] (3 :: uint32_t) = (0, ro_file_store, 5) \<and>
   mode_of failing_raw_store = Raw \<and> m_blockdev failing_raw_store \<noteq> nullptr \<and>
   unat (512 :: uint32_t) mod 512 = 0 \<and> unat (512 :: uint32_t) < 2 ^ 41 \<and> 10 \<le> LENGTH(32) \<and>
   \<not> fst (writeSectors failing_card_env (5 :: nat) (m_cursector failing_raw_store) [1, 2, 3]
           (ucast ((512 :: uint32_t) div SD_SECTOR_SIZE))) \<and>
   write_buf failing_card_env failing_raw_store (5 :: nat) [1, 2, 3] (512 :: uint32_t)
     = (0, failing_raw_store, 5) \<and>
   \<not> fst (readSectors failing_card_env (5 :: nat) (m_cursector failing_raw_store)
           (ucast ((512 :: uint32_t) div SD_SECTOR_SIZE))) \<and>
   (\<exists>b d. read failing_card_env failing_raw_store (5 :: nat) (512 :: uint32_t)
            = Inr (- 1, b, failing_raw_store, d))"
proof -
  note t = write_refusal_returns_zero
  have m1: "mode_of rom_store = Rom" by (simp add: rom_store_eq mode_of_def)
  have m2: "mode_of ro_file_store = File \<and> m_isreadonly_attr ro_file_store"
    by (simp add: ro_file_store_eq mode_of_def)
  have m3: "mode_of failing_raw_store = Raw \<and> m_blockdev failing_raw_store \<noteq> nullptr \<and>
     unat (512 :: uint32_t) mod 512 = 0 \<and> unat (512 :: uint32_t) < 2 ^ 41 \<and> 10 \<le> LENGTH(32)"
    by (simp add: failing_raw_store_eq mode_of_def)
  have f1: "\<not> fst (writeSectors failing_card_env (5 :: nat) (m_cursector failing_raw_store) [1, 2, 3]
           (ucast ((512 :: uint32_t) div SD_SECTOR_SIZE)))"
    by (simp add: failing_card_env_def test_defs)
  have f2: "\<not> fst (readSectors failing_card_env (5 :: nat) (m_cursector failing_raw_store)
           (ucast ((512 :: uint32_t) div SD_SECTOR_SIZE)))"
    by (simp add: failing_card_env_def test_defs)
  have w1: "write_buf rom_env rom_store (5 :: nat) [1, 2, 3] (512 :: uint32_t) = (0, rom_store, 5)"
    using t [of rom_store rom_env 5 "[1, 2, 3]" "512 :: uint32_t"] m1 by blast
  have w2: "write_buf ro_file_env ro_file_store (5 :: nat) [1, 2, 3] (3 :: uint32_t)
              = (0, ro_file_store, 5)"
    using t [of ro_file_store ro_file_env 5 "[1, 2, 3]" "3 :: uint32_t"] m2 by blast
  have "write_buf failing_card_env failing_raw_store (5 :: nat) [1, 2, 3] (512 :: uint32_t)
     = (0, failing_raw_store,
        snd (writeSectors failing_card_env (5 :: nat) (m_cursector failing_raw_store) [1, 2, 3]
           (ucast ((512 :: uint32_t) div SD_SECTOR_SIZE))))"
    using t [of failing_raw_store failing_card_env 5 "[1, 2, 3]" "512 :: uint32_t"] m3 f1 by blast
  then have w3: "write_buf failing_card_env failing_raw_store (5 :: nat) [1, 2, 3] (512 :: uint32_t)
     = (0, failing_raw_store, 5)"
    by (simp add: failing_card_env_def test_defs)
  have r3: "\<exists>b d. read failing_card_env failing_raw_store (5 :: nat) (512 :: uint32_t)
            = Inr (- 1, b, failing_raw_store, d)"
    using t [of failing_raw_store failing_card_env 5 "[1, 2, 3]" "512 :: uint32_t"] m3 f2 by blast
  from m1 m2 m3 f1 f2 w1 w2 w3 r3 show ?thesis by blast
qed

text \<open>
  C7, as stated, fails. \<^verbatim>\<open>RAW:10:\<close> has no second field and \<^verbatim>\<open>RAW::20\<close> has
  no first field; \<^verbatim>\<open>strtoul\<close> reads an empty field as 0 and consumes nothing, the
  constructor only tests the character after each number, and both descriptors give an
  open store in Raw mode (sectors 10 to 0, and 0 to 20).
\<close>

theorem malformed_raw_descriptor_counterexample:
  "strncasecmp ''RAW:10:'' ''RAW:'' 4 = 0 \<and>
   isOpen raw_env (ImageBackingStore_open raw_env 0 ''RAW:10:'' 512) \<and>
   m_israw (ImageBackingStore_open raw_env 0 ''RAW:10:'' 512) \<and>
   m_bgnsector (ImageBackingStore_open raw_env 0 ''RAW:10:'' 512) = 10 \<and>
   m_endsector (ImageBackingStore_open raw_env 0 ''RAW:10:'' 512) = 0 \<and>
   strncasecmp ''RAW::20'' ''RAW:'' 4 = 0 \<and>
   isOpen raw_env (ImageBackingStore_open raw_env 0 ''RAW::20'' 512) \<and>
   m_israw (ImageBackingStore_open raw_env 0 ''RAW::20'' 512) \<and>
   m_bgnsector (ImageBackingStore_open raw_env 0 ''RAW::20'' 512) = 0 \<and>
   m_endsector (ImageBackingStore_open raw_env 0 ''RAW::20'' 512) = 20"
  by (simp add: raw_env_def ctor_defs libc_defs test_defs isOpen_def)

text \<open>
  C7, amended. The constructor tests the two separators and nothing else: a descriptor
  with the prefix \<^verbatim>\<open>RAW:\<close> is refused when the first number that \<^verbatim>\<open>strtoul\<close>
  reads is not followed by a colon (missing separator), or the second is not followed by
  the end of the string (trailing garbage). Then the constructor sets neither flag, binds
  no device, leaves the handle default-constructed, and \<^verbatim>\<open>isOpen\<close> is false (a
  default-constructed SdFat handle is not open). This covers: no colon after the prefix;
  a first or second field that starts with a character no number can start with; a
  decimal first number followed by a character other than a digit or a colon; a decimal
  second number followed by any further character other than a digit. An empty field is
  not refused. The examples are \<^verbatim>\<open>RAW:10\<close>, \<^verbatim>\<open>RAW:abc:20\<close>,
  \<^verbatim>\<open>RAW:10:zz\<close> and \<^verbatim>\<open>RAW:1:2x\<close>.
\<close>

theorem malformed_raw_descriptor_stays_closed:
  assumes prefix: "strncasecmp filename ''RAW:'' 4 = 0"
      and closed: "\<not> fs_isOpen env (FsFile_closed env)"
      and e1: "endptr = snd (strtoul (ULONG_MAX env) (drop 4 filename))"
      and e2: "endptr2 = snd (strtoul (ULONG_MAX env) (ptr_succ env endptr))"
      and st: "st = ImageBackingStore_open env hdr filename bs"
  shows "(deref endptr \<noteq> CHR '':'' \<or> deref endptr2 \<noteq> NUL \<longrightarrow>
            \<not> m_israw st \<and> \<not> m_isrom st \<and> m_blockdev st = nullptr \<and>
            m_fsfile st = FsFile_closed env \<and> \<not> isOpen env st) \<and>
         (CHR '':'' \<notin> set (drop 4 filename) \<longrightarrow> \<not> isOpen env st) \<and>
         (drop 4 filename = c # cs \<and> \<not> isspace c \<and> c \<noteq> CHR ''-'' \<and> c \<noteq> CHR ''+'' \<and>
          c \<noteq> CHR '':'' \<and> \<not> is_digit_in 10 c \<longrightarrow> \<not> isOpen env st) \<and>
         (endptr = CHR '':'' # c # cs \<and> \<not> isspace c \<and> c \<noteq> CHR ''-'' \<and> c \<noteq> CHR ''+'' \<and>
          c \<noteq> NUL \<and> \<not> is_digit_in 10 c \<longrightarrow> \<not> isOpen env st) \<and>
         (drop 4 filename = ds @ c # cs \<and> decimal_number ds \<and> \<not> is_digit_in 10 c \<and>
          c \<noteq> CHR '':'' \<longrightarrow> \<not> isOpen env st) \<and>
         (endptr = CHR '':'' # ds @ c # cs \<and> decimal_number ds \<and> \<not> is_digit_in 10 c \<and>
          c \<noteq> NUL \<longrightarrow> \<not> isOpen env st)"
proof -
  have a: "\<not> m_israw st \<and> \<not> m_isrom st \<and> m_blockdev st = nullptr \<and>
            m_fsfile st = FsFile_closed env \<and> \<not> isOpen env st"
    if h: "deref endptr \<noteq> CHR '':'' \<or> deref endptr2 \<noteq> NUL"
  proof -
    from h have "st = (ImageBackingStore_default env hdr)
             \<lparr>m_bgnsector := of_nat (fst (strtoul (ULONG_MAX env) (drop 4 filename))),
              m_endsector := of_nat (fst (strtoul (ULONG_MAX env)
                    (ptr_succ env (snd (strtoul (ULONG_MAX env) (drop 4 filename))))))\<rparr>"
      using prefix ctor_raw_malformed [of env filename bs hdr]
      by (simp add: st ImageBackingStore_open_def e1 e2)
    then show ?thesis using closed by (simp add: ImageBackingStore_default_def isOpen_def)
  qed
  have b: "deref endptr \<noteq> CHR '':''" if h: "CHR '':'' \<notin> set (drop 4 filename)"
  proof
    assume c: "deref endptr = CHR '':''"
    then have "deref endptr \<noteq> NUL" by (simp add: NUL_def)
    then have "deref endptr \<in> set endptr" by (rule deref_in_set)
    with strtoul_rest_subset [of "ULONG_MAX env" "drop 4 filename"] c h show False
      by (auto simp: e1)
  qed
  have c: "deref endptr \<noteq> CHR '':''"
    if h: "drop 4 filename = c # cs \<and> \<not> isspace c \<and> c \<noteq> CHR ''-'' \<and> c \<noteq> CHR ''+'' \<and>
          c \<noteq> CHR '':'' \<and> \<not> is_digit_in 10 c"
  proof -
    from h have "strtoul (ULONG_MAX env) (drop 4 filename) = (0, c # cs)"
      using strtoul_no_number [of c "ULONG_MAX env" cs] by simp
    with h show ?thesis by (simp add: e1 deref_def)
  qed
  have d: "deref endptr2 \<noteq> NUL"
    if h: "endptr = CHR '':'' # c # cs \<and> \<not> isspace c \<and> c \<noteq> CHR ''-'' \<and> c \<noteq> CHR ''+'' \<and>
          c \<noteq> NUL \<and> \<not> is_digit_in 10 c"
  proof -
    from h have "strtoul (ULONG_MAX env) (ptr_succ env endptr) = (0, c # cs)"
      using strtoul_no_number [of c "ULONG_MAX env" cs] by (simp add: ptr_succ_def)
    with h show ?thesis by (simp add: e2 deref_def)
  qed
  have e: "deref endptr \<noteq> CHR '':''"
    if h: "drop 4 filename = ds @ c # cs \<and> decimal_number ds \<and> \<not> is_digit_in 10 c \<and>
          c \<noteq> CHR '':''"
  proof -
    from h have "snd (strtoul (ULONG_MAX env) (drop 4 filename)) = c # cs"
      using strtoul_decimal_rest [of ds c "ULONG_MAX env" cs] by simp
    with h show ?thesis by (simp add: e1 deref_def)
  qed
  have f: "deref endptr2 \<noteq> NUL"
    if h: "endptr = CHR '':'' # ds @ c # cs \<and> decimal_number ds \<and> \<not> is_digit_in 10 c \<and>
          c \<noteq> NUL"
  proof -
    from h have "snd (strtoul (ULONG_MAX env) (ptr_succ env endptr)) = c # cs"
      using strtoul_decimal_rest [of ds c "ULONG_MAX env" cs] by (simp add: ptr_succ_def)
    with h show ?thesis by (simp add: e2 deref_def)
  qed
  from a b c d e f show ?thesis by blast
qed

theorem malformed_raw_descriptor_stays_closed_witness:
  "strncasecmp ''RAW:10'' ''RAW:'' 4 = 0 \<and> strncasecmp ''RAW:abc:20'' ''RAW:'' 4 = 0 \<and>
   strncasecmp ''RAW:1:2x'' ''RAW:'' 4 = 0 \<and>
   \<not> fs_isOpen raw_env (FsFile_closed raw_env) \<and>
   snd (strtoul (ULONG_MAX raw_env) (drop 4 ''RAW:10'')) = [] \<and> deref [] \<noteq> CHR '':'' \<and>
   CHR '':'' \<notin> set (drop 4 ''RAW:10'') \<and>
   snd (strtoul (ULONG_MAX raw_env) (drop 4 ''RAW:abc:20'')) = ''abc:20'' \<and>
   deref ''abc:20'' \<noteq> CHR '':'' \<and>
   snd (strtoul (ULONG_MAX raw_env) (drop 4 ''RAW:1:2x'')) = '':2x'' \<and>
   snd (strtoul (ULONG_MAX raw_env) (ptr_succ raw_env '':2x'')) = ''x'' \<and> deref ''x'' \<noteq> NUL \<and>
   \<not> isOpen raw_env (ImageBackingStore_open raw_env 0 ''RAW:10'' 512) \<and>
   \<not> m_israw (ImageBackingStore_open raw_env 0 ''RAW:10'' 512) \<and>
   \<not> m_isrom (ImageBackingStore_open raw_env 0 ''RAW:10'' 512) \<and>
   \<not> isOpen raw_env (ImageBackingStore_open raw_env 0 ''RAW:abc:20'' 512) \<and>
   \<not> m_israw (ImageBackingStore_open raw_env 0 ''RAW:abc:20'' 512) \<and>
   \<not> m_isrom (ImageBackingStore_open raw_env 0 ''RAW:abc:20'' 512) \<and>
   \<not> isOpen raw_env (ImageBackingStore_open raw_env 0 ''RAW:1:2x'' 512) \<and>
   strncasecmp ''RAW:10:zz'' ''RAW:'' 4 = 0 \<and>
   snd (strtoul (ULONG_MAX raw_env) (drop 4 ''RAW:10:zz'')) = CHR '':'' # CHR ''z'' # ''z'' \<and>
   \<not> isspace (CHR ''z'') \<and> \<not> is_digit_in 10 (CHR ''z'') \<and>
   \<not> isOpen raw_env (ImageBackingStore_open raw_env 0 ''RAW:10:zz'' 512) \<and>
   decimal_number ''2'' \<and> \<not> is_digit_in 10 (CHR ''x'')"
proof -
  have p: "strncasecmp ''RAW:10'' ''RAW:'' 4 = 0" "strncasecmp ''RAW:abc:20'' ''RAW:'' 4 = 0"
    "strncasecmp ''RAW:1:2x'' ''RAW:'' 4 = 0"
    by (simp_all add: libc_defs)
  have c: "\<not> fs_isOpen raw_env (FsFile_closed raw_env)"
    by (simp add: raw_env_def test_defs)
  have a1: "snd (strtoul (ULONG_MAX raw_env) (drop 4 ''RAW:10'')) = []"
    by (simp add: ULONG_MAX_raw_env libc_defs)
  have a2: "deref [] \<noteq> CHR '':''" "CHR '':'' \<notin> set (drop 4 ''RAW:10'')"
    by (simp_all add: deref_def NUL_def)
  have b1: "snd (strtoul (ULONG_MAX raw_env) (drop 4 ''RAW:abc:20'')) = ''abc:20''"
    by (simp add: ULONG_MAX_raw_env libc_defs)
  have b2: "deref ''abc:20'' \<noteq> CHR '':''" by (simp add: deref_def)
  have c1: "snd (strtoul (ULONG_MAX raw_env) (drop 4 ''RAW:1:2x'')) = '':2x''"
    by (simp add: ULONG_MAX_raw_env libc_defs)
  have c2: "snd (strtoul (ULONG_MAX raw_env) (ptr_succ raw_env '':2x'')) = ''x''"
    by (simp add: ULONG_MAX_raw_env libc_defs ptr_succ_def)
  have c3: "deref ''x'' \<noteq> NUL" by (simp add: deref_def NUL_def)
  note t1 = malformed_raw_descriptor_stays_closed [OF p(1) c refl refl refl,
      where hdr = 0 and bs = 512]
  note t2 = malformed_raw_descriptor_stays_closed [OF p(2) c refl refl refl,
      where hdr = 0 and bs = 512]
  note t3 = malformed_raw_descriptor_stays_closed [OF p(3) c refl refl refl,
      where hdr = 0 and bs = 512 and ds = "''2''" and c = "CHR ''x''" and cs = "[]"]
  from t1 a1 a2 have r1:
    "\<not> isOpen raw_env (ImageBackingStore_open raw_env 0 ''RAW:10'' 512) \<and>
     \<not> m_israw (ImageBackingStore_open raw_env 0 ''RAW:10'' 512) \<and>
     \<not> m_isrom (ImageBackingStore_open raw_env 0 ''RAW:10'' 512)"
    by simp
  from t2 b1 b2 have r2:
    "\<not> isOpen raw_env (ImageBackingStore_open raw_env 0 ''RAW:abc:20'' 512) \<and>
     \<not> m_israw (ImageBackingStore_open raw_env 0 ''RAW:abc:20'' 512) \<and>
     \<not> m_isrom (ImageBackingStore_open raw_env 0 ''RAW:abc:20'' 512)"
    by simp
  have c4: "decimal_number ''2''" "\<not> is_digit_in 10 (CHR ''x'')"
    by (simp_all add: decimal_number_def is_digit_in_def digit_val_def)
  have c5: "snd (strtoul (ULONG_MAX raw_env) (drop 4 ''RAW:1:2x'')) = CHR '':'' # ''2'' @ CHR ''x'' # []"
    using c1 by simp
  from t3 c3 c4 c5 have r3: "\<not> isOpen raw_env (ImageBackingStore_open raw_env 0 ''RAW:1:2x'' 512)"
    by (simp add: NUL_def)
  have p4: "strncasecmp ''RAW:10:zz'' ''RAW:'' 4 = 0" by (simp add: libc_defs)
  have d1: "snd (strtoul (ULONG_MAX raw_env) (drop 4 ''RAW:10:zz'')) = CHR '':'' # CHR ''z'' # ''z''"
    by (simp add: ULONG_MAX_raw_env libc_defs)
  have d2: "\<not> isspace (CHR ''z'')" "\<not> is_digit_in 10 (CHR ''z'')"
    by (simp_all add: isspace_def is_digit_in_def digit_val_def)
  note t4 = malformed_raw_descriptor_stays_closed [OF p4 c refl refl refl,
      where c = "CHR ''z''" and cs = "''z''" and hdr = 0 and bs = 512]
  from t4 d1 d2 have r4: "\<not> isOpen raw_env (ImageBackingStore_open raw_env 0 ''RAW:10:zz'' 512)"
    by (simp add: NUL_def)
  from p c a1 a2 b1 b2 c1 c2 c3 c4 r1 r2 r3 p4 d1 d2 r4 show ?thesis by blast
qed

text \<open>
  C8, as stated, fails. In File mode with the read-only attribute set \<^verbatim>\<open>flush\<close>
  does not call the file's flush: the object is unchanged, although the file's flush
  would change the handle.
\<close>

theorem flush_delegation_counterexample:
  "mode_of ro_file_store = File \<and>
   fs_flush ro_file_env (m_fsfile ro_file_store) \<noteq> m_fsfile ro_file_store \<and>
   flush ro_file_env ro_file_store = ro_file_store \<and>
   flush ro_file_env ro_file_store
     \<noteq> ro_file_store\<lparr>m_fsfile := fs_flush ro_file_env (m_fsfile ro_file_store)\<rparr>"
  by (simp add: ro_file_store_eq flush_def mode_of_def ro_file_env_def test_defs)

text \<open>
  C8, amended. \<^verbatim>\<open>flush\<close> leaves the object and its file handle untouched in Raw
  and Rom modes, and also in File mode when the read-only attribute is set; in File mode
  without the read-only attribute it replaces the handle by the result of the file's
  flush. It never touches the card.
\<close>

theorem flush_by_mode:
  "(mode_of s = Raw \<or> mode_of s = Rom \<or> m_isreadonly_attr s \<longrightarrow> flush env s = s) \<and>
   (mode_of s = File \<and> \<not> m_isreadonly_attr s \<longrightarrow>
      flush env s = s\<lparr>m_fsfile := fs_flush env (m_fsfile s)\<rparr>) \<and>
   call env Flush (s, dev) = Inr (flush env s, dev)"
  by (simp add: flush_def mode_of_def call_def)

theorem flush_by_mode_witness:
  "mode_of promoted_store = Raw \<and> flush promoted_env promoted_store = promoted_store \<and>
   mode_of rom_store = Rom \<and> flush rom_env rom_store = rom_store \<and>
   m_isreadonly_attr ro_file_store \<and> flush ro_file_env ro_file_store = ro_file_store \<and>
   mode_of (ro_file_store\<lparr>m_isreadonly_attr := False\<rparr>) = File \<and>
   \<not> m_isreadonly_attr (ro_file_store\<lparr>m_isreadonly_attr := False\<rparr>) \<and>
   flush ro_file_env (ro_file_store\<lparr>m_isreadonly_attr := False\<rparr>) =
     ro_file_store\<lparr>m_isreadonly_attr := False,
                    m_fsfile := (open_file 5120 None)\<lparr>tf_flushed := 1\<rparr>\<rparr>"
proof -
  note t = flush_by_mode
  have m1: "mode_of promoted_store = Raw" by (simp add: promoted_store_eq mode_of_def)
  have m2: "mode_of rom_store = Rom" by (simp add: rom_store_eq mode_of_def)
  have m3: "m_isreadonly_attr ro_file_store" by (simp add: ro_file_store_eq)
  have m4: "mode_of (ro_file_store\<lparr>m_isreadonly_attr := False\<rparr>) = File \<and>
            \<not> m_isreadonly_attr (ro_file_store\<lparr>m_isreadonly_attr := False\<rparr>)"
    by (simp add: ro_file_store_eq mode_of_def)
  have f1: "flush promoted_env promoted_store = promoted_store"
    using t [of promoted_store promoted_env "0 :: nat"] m1 by blast
  have f2: "flush rom_env rom_store = rom_store" using t [of rom_store rom_env "0 :: nat"] m2 by blast
  have f3: "flush ro_file_env ro_file_store = ro_file_store"
    using t [of ro_file_store ro_file_env "0 :: nat"] m3 by blast
  have "flush ro_file_env (ro_file_store\<lparr>m_isreadonly_attr := False\<rparr>) =
     ro_file_store\<lparr>m_isreadonly_attr := False,
        m_fsfile := fs_flush ro_file_env (m_fsfile (ro_file_store\<lparr>m_isreadonly_attr := False\<rparr>))\<rparr>"
    using t [of "ro_file_store\<lparr>m_isreadonly_attr := False\<rparr>" ro_file_env "0 :: nat"] m4
    by blast
  then have f4: "flush ro_file_env (ro_file_store\<lparr>m_isreadonly_attr := False\<rparr>) =
     ro_file_store\<lparr>m_isreadonly_attr := False,
                    m_fsfile := (open_file 5120 None)\<lparr>tf_flushed := 1\<rparr>\<rparr>"
    by (simp add: ro_file_store_eq ro_file_env_def test_defs)
  from m1 m2 m3 m4 f1 f2 f3 f4 show ?thesis by blast
qed

text \<open>
  C9. In Raw mode \<^verbatim>\<open>close\<close> only sets \<^verbatim>\<open>m_blockdev\<close> to null and returns
  true; in Rom mode it only zeroes the image size and returns true; in both,
  \<^verbatim>\<open>isOpen\<close> is false afterwards and a second \<^verbatim>\<open>close\<close> returns true again and
  changes nothing. In File mode it returns what the file's close returns, and
  \<^verbatim>\<open>isOpen\<close> afterwards is the handle's own answer, false when the closed handle
  reports not open (the contract of SdFat's close). No \<^verbatim>\<open>close\<close> changes the card.
\<close>

theorem close_then_not_open:
  "(mode_of s = Raw \<longrightarrow>
      close env s = (True, s\<lparr>m_blockdev := nullptr\<rparr>) \<and>
      \<not> isOpen env (snd (close env s)) \<and>
      close env (snd (close env s)) = (True, snd (close env s))) \<and>
   (mode_of s = Rom \<longrightarrow>
      close env s = (True, s\<lparr>m_romhdr_imagesize := 0\<rparr>) \<and>
      \<not> isOpen env (snd (close env s)) \<and>
      close env (snd (close env s)) = (True, snd (close env s))) \<and>
   (mode_of s = File \<longrightarrow>
      close env s = (fst (fs_close env (m_fsfile s)),
                     s\<lparr>m_fsfile := snd (fs_close env (m_fsfile s))\<rparr>) \<and>
      isOpen env (snd (close env s)) = fs_isOpen env (snd (fs_close env (m_fsfile s)))) \<and>
   (mode_of s = File \<and> \<not> fs_isOpen env (snd (fs_close env (m_fsfile s))) \<longrightarrow>
      \<not> isOpen env (snd (close env s))) \<and>
   call env Close (s, dev) = Inr (snd (close env s), dev)"
  by (auto simp: close_def isOpen_def mode_of_def call_def Let_def split: prod.splits if_splits)

theorem close_then_not_open_witness:
  "mode_of promoted_store = Raw \<and>
   close promoted_env promoted_store = (True, promoted_store\<lparr>m_blockdev := nullptr\<rparr>) \<and>
   \<not> isOpen promoted_env (promoted_store\<lparr>m_blockdev := nullptr\<rparr>) \<and>
   close promoted_env (promoted_store\<lparr>m_blockdev := nullptr\<rparr>)
     = (True, promoted_store\<lparr>m_blockdev := nullptr\<rparr>) \<and>
   mode_of rom_store = Rom \<and>
   close rom_env rom_store = (True, rom_store\<lparr>m_romhdr_imagesize := 0\<rparr>) \<and>
   \<not> isOpen rom_env (rom_store\<lparr>m_romhdr_imagesize := 0\<rparr>) \<and>
   close rom_env (rom_store\<lparr>m_romhdr_imagesize := 0\<rparr>)
     = (True, rom_store\<lparr>m_romhdr_imagesize := 0\<rparr>) \<and>
   mode_of ro_file_store = File \<and> isOpen ro_file_env ro_file_store \<and>
   \<not> fs_isOpen ro_file_env (snd (fs_close ro_file_env (m_fsfile ro_file_store))) \<and>
   \<not> isOpen ro_file_env (snd (close ro_file_env ro_file_store))"
proof -
  note t = close_then_not_open
  have m1: "mode_of promoted_store = Raw" by (simp add: promoted_store_eq mode_of_def)
  have m2: "mode_of rom_store = Rom" by (simp add: rom_store_eq mode_of_def)
  have m3: "mode_of ro_file_store = File" by (simp add: ro_file_store_eq mode_of_def)
  have o3: "isOpen ro_file_env ro_file_store"
    by (simp add: ro_file_store_eq isOpen_def ro_file_env_def test_defs)
  have c3: "\<not> fs_isOpen ro_file_env (snd (fs_close ro_file_env (m_fsfile ro_file_store)))"
    by (simp add: ro_file_store_eq ro_file_env_def test_defs)
  from t [of promoted_store promoted_env "0 :: nat"] m1 have r1:
    "close promoted_env promoted_store = (True, promoted_store\<lparr>m_blockdev := nullptr\<rparr>) \<and>
     \<not> isOpen promoted_env (snd (close promoted_env promoted_store)) \<and>
     close promoted_env (snd (close promoted_env promoted_store))
       = (True, snd (close promoted_env promoted_store))"
    by blast
  then have r1': "\<not> isOpen promoted_env (promoted_store\<lparr>m_blockdev := nullptr\<rparr>) \<and>
     close promoted_env (promoted_store\<lparr>m_blockdev := nullptr\<rparr>)
       = (True, promoted_store\<lparr>m_blockdev := nullptr\<rparr>)"
    by (metis snd_conv)
  from t [of rom_store rom_env "0 :: nat"] m2 have r2:
    "close rom_env rom_store = (True, rom_store\<lparr>m_romhdr_imagesize := 0\<rparr>) \<and>
     \<not> isOpen rom_env (snd (close rom_env rom_store)) \<and>
     close rom_env (snd (close rom_env rom_store)) = (True, snd (close rom_env rom_store))"
    by blast
  then have r2': "\<not> isOpen rom_env (rom_store\<lparr>m_romhdr_imagesize := 0\<rparr>) \<and>
     close rom_env (rom_store\<lparr>m_romhdr_imagesize := 0\<rparr>)
       = (True, rom_store\<lparr>m_romhdr_imagesize := 0\<rparr>)"
    by (metis snd_conv)
  from t [of ro_file_store ro_file_env "0 :: nat"] m3 c3 have r3:
    "\<not> isOpen ro_file_env (snd (close ro_file_env ro_file_store))"
    by blast
  from m1 m2 m3 o3 c3 r1 r1' r2 r2' r3 show ?thesis by blast
qed

text \<open>
  C10. A default-constructed store is writable and not open, and so is every store that
  the constructor built from a \<^verbatim>\<open>RAW:\<close> or \<^verbatim>\<open>ROM:\<close> descriptor without setting
  either mode flag (not open: a default-constructed SdFat handle is not open).
\<close>

theorem unopened_store_is_writable:
  assumes st: "st = ImageBackingStore_open env hdr filename bs"
  shows "isWritable (ImageBackingStore_default env hdr) \<and>
   (\<not> fs_isOpen env (FsFile_closed env) \<longrightarrow> \<not> isOpen env (ImageBackingStore_default env hdr)) \<and>
   ((strncasecmp filename ''RAW:'' 4 = 0 \<or> strncasecmp filename ''ROM:'' 4 = 0) \<and>
    \<not> m_israw st \<and> \<not> m_isrom st \<longrightarrow>
      isWritable st \<and> (\<not> fs_isOpen env (FsFile_closed env) \<longrightarrow> \<not> isOpen env st))"
proof -
  let ?d = "ImageBackingStore_default env hdr"
  have d: "\<not> m_isreadonly_attr ?d" "m_fsfile ?d = FsFile_closed env" "\<not> m_israw ?d" "\<not> m_isrom ?d"
    by (simp_all add: ImageBackingStore_default_def)
  have a: "isWritable ?d" using d by (simp add: isWritable_def)
  have b: "\<not> fs_isOpen env (FsFile_closed env) \<longrightarrow> \<not> isOpen env ?d"
    using d by (simp add: isOpen_def)
  have c: "isWritable st \<and> (\<not> fs_isOpen env (FsFile_closed env) \<longrightarrow> \<not> isOpen env st)"
    if h: "(strncasecmp filename ''RAW:'' 4 = 0 \<or> strncasecmp filename ''ROM:'' 4 = 0) \<and>
           \<not> m_israw st \<and> \<not> m_isrom st"
  proof -
    have "st = ctor_raw env filename bs ?d \<or> st = ctor_rom env ?d"
      using h by (auto simp: st ImageBackingStore_open_def Let_def)
    then have "\<not> m_isreadonly_attr st \<and> m_fsfile st = FsFile_closed env"
      using ctor_raw_keeps_file [of env filename bs ?d] ctor_rom_keeps_file [of env ?d] d
      by auto
    with h show ?thesis by (simp add: isWritable_def isOpen_def)
  qed
  from a b c show ?thesis by blast
qed

theorem unopened_store_is_writable_witness:
  "\<not> fs_isOpen raw_env (FsFile_closed raw_env) \<and>
   isWritable (ImageBackingStore_default raw_env 0) \<and>
   \<not> isOpen raw_env (ImageBackingStore_default raw_env 0) \<and>
   strncasecmp ''RAW:10'' ''RAW:'' 4 = 0 \<and>
   \<not> m_israw (ImageBackingStore_open raw_env 0 ''RAW:10'' 512) \<and>
   \<not> m_isrom (ImageBackingStore_open raw_env 0 ''RAW:10'' 512) \<and>
   isWritable (ImageBackingStore_open raw_env 0 ''RAW:10'' 512) \<and>
   \<not> isOpen raw_env (ImageBackingStore_open raw_env 0 ''RAW:10'' 512)"
proof -
  note t = unopened_store_is_writable [OF refl, of raw_env 0 "''RAW:10''" 512]
  have c: "\<not> fs_isOpen raw_env (FsFile_closed raw_env)" by (simp add: raw_env_def test_defs)
  have p: "strncasecmp ''RAW:10'' ''RAW:'' 4 = 0" by (simp add: libc_defs)
  have f: "\<not> m_israw (ImageBackingStore_open raw_env 0 ''RAW:10'' 512) \<and>
           \<not> m_isrom (ImageBackingStore_open raw_env 0 ''RAW:10'' 512)"
    by (simp add: raw_env_def ctor_defs libc_defs test_defs)
  from t c p f show ?thesis by blast
qed

end
